theory Spec2Isabelle
  imports Main
begin

section \<open>Tokens and positions\<close>

text \<open>
  The packages \<^verbatim>\<open>token\<close>, \<^verbatim>\<open>ast\<close>, \<^verbatim>\<open>lexer\<close>, the parser's \<^verbatim>\<open>context\<close> and the
  scanner's \<^verbatim>\<open>Context\<close> are imported by \<^verbatim>\<open>parser.go\<close> but their sources are not part
  of the files at hand. What the parser and the scanner use of them is modelled below from
  the specification; each such definition says so. Strings are byte lists; the
  scanner's rune indices and byte lengths coincide on ASCII input, which is what the
  model covers.
\<close>

record Position =
  Line :: int
  Column :: int
  Offset :: int
  IndentNum :: int
  IndentLevel :: int

datatype Type =
    UnknownType
  | DocumentHeaderType | DocumentEndType
  | MappingStartType | MappingEndType
  | SequenceStartType | SequenceEndType
  | CollectEntryType | SequenceEntryType | MappingValueType
  | AnchorType | AliasType | TagType | DirectiveType | MergeKeyType | CommentType
  | StringType | SingleQuoteType | DoubleQuoteType | LiteralType | FoldedType
  | NullType | BoolType
  | IntegerType | BinaryIntegerType | OctetIntegerType | HexIntegerType
  | FloatType | InfinityType | NanType

text \<open>
  Modelled from the spec: \<^verbatim>\<open>token.Token\<close> (kind, semantic value, original lexeme,
  position, and a forward link to the next token's kind). The link is kept as the kind it
  yields: \<open>NextType\<close> is what \<^verbatim>\<open>tk.NextType()\<close> returns, \<open>UnknownType\<close> when there is
  no next token.
\<close>

record token =
  Type :: Type
  Value :: string
  Origin :: string
  Position :: Position
  NextType :: Type

text \<open>
  Modelled from the spec: \<^verbatim>\<open>token.New("null", "null", pos)\<close>, the only call of
  \<^verbatim>\<open>token.New\<close> in the parser; the literal \<^verbatim>\<open>null\<close> is classified as Null.
\<close>

definition token_New_null :: "Position \<Rightarrow> token" where
  "token_New_null pos =
     \<lparr>Type = NullType, Value = ''null'', Origin = ''null'', Position = pos,
      NextType = UnknownType\<rparr>"

section \<open>Nodes\<close>

datatype NodeType =
    ast_UnknownNodeType | ast_DocumentType | ast_NullType | ast_BoolType | ast_IntegerType
  | ast_FloatType | ast_InfinityType | ast_NanType | ast_StringType | ast_MergeKeyType
  | ast_LiteralType | ast_MappingType | ast_MappingValueType | ast_SequenceType
  | ast_AnchorType | ast_AliasType | ast_DirectiveType | ast_TagType

text \<open>
  Modelled from the spec: the node variants of \<^verbatim>\<open>ast\<close>. A Go pointer or interface
  that the parser may leave nil is an \<open>option\<close>; a scalar node holds its token.
\<close>

datatype node =
    NullNode token
  | BoolNode token
  | IntegerNode token
  | FloatNode token
  | InfinityNode token
  | NanNode token
  | StringNode token
  | MergeKeyNode token
  | LiteralNode "token option" node
  | MappingNode "token option" "token option" bool "MappingValueNode list"
  | MappingValue MappingValueNode
  | SequenceNode "token option" "token option" bool "node option list"
  | AnchorNode "token option" "node option" "node option"
  | AliasNode "token option" "node option"
  | DirectiveNode "token option" "node option"
  | TagNode "token option" "node option"
  | Document "token option" "token option" "node option"
and MappingValueNode =
    MappingValueNode (mv_Start: "token option") (mv_Key: node) (mv_Value: node)

record File =
  Docs :: "node list"

fun ast_Type :: "node \<Rightarrow> NodeType" where
  "ast_Type (NullNode _) = ast_NullType"
| "ast_Type (BoolNode _) = ast_BoolType"
| "ast_Type (IntegerNode _) = ast_IntegerType"
| "ast_Type (FloatNode _) = ast_FloatType"
| "ast_Type (InfinityNode _) = ast_InfinityType"
| "ast_Type (NanNode _) = ast_NanType"
| "ast_Type (StringNode _) = ast_StringType"
| "ast_Type (MergeKeyNode _) = ast_MergeKeyType"
| "ast_Type (LiteralNode _ _) = ast_LiteralType"
| "ast_Type (MappingNode _ _ _ _) = ast_MappingType"
| "ast_Type (MappingValue _) = ast_MappingValueType"
| "ast_Type (SequenceNode _ _ _ _) = ast_SequenceType"
| "ast_Type (AnchorNode _ _ _) = ast_AnchorType"
| "ast_Type (AliasNode _ _) = ast_AliasType"
| "ast_Type (DirectiveNode _ _) = ast_DirectiveType"
| "ast_Type (TagNode _ _) = ast_TagType"
| "ast_Type (Document _ _ _) = ast_DocumentType"

text \<open>
  Modelled from the spec: \<^verbatim>\<open>Node.GetToken()\<close>. The outer \<open>option\<close> is \<open>None\<close> where
  the call dereferences nil (a document without a body has no node to ask); the inner
  one is the pointer returned. A scalar returns its token, every other node its start
  token, a document the token of its body.
\<close>

fun GetToken :: "node \<Rightarrow> token option option" where
  "GetToken (NullNode t) = Some (Some t)"
| "GetToken (BoolNode t) = Some (Some t)"
| "GetToken (IntegerNode t) = Some (Some t)"
| "GetToken (FloatNode t) = Some (Some t)"
| "GetToken (InfinityNode t) = Some (Some t)"
| "GetToken (NanNode t) = Some (Some t)"
| "GetToken (StringNode t) = Some (Some t)"
| "GetToken (MergeKeyNode t) = Some (Some t)"
| "GetToken (LiteralNode s _) = Some s"
| "GetToken (MappingNode s _ _ _) = Some s"
| "GetToken (MappingValue mv) = Some (mv_Start mv)"
| "GetToken (SequenceNode s _ _ _) = Some s"
| "GetToken (AnchorNode s _ _) = Some s"
| "GetToken (AliasNode s _) = Some s"
| "GetToken (DirectiveNode s _) = Some s"
| "GetToken (TagNode s _) = Some s"
| "GetToken (Document _ _ body) = (case body of None \<Rightarrow> None | Some b \<Rightarrow> GetToken b)"

text \<open>
  Modelled from the spec: the type assertion \<^verbatim>\<open>key.(ast.ScalarNode)\<close>; the scalars are
  Null, Bool, Integer, Float, Infinity, Nan, String and the placeholder scalar MergeKey.
\<close>

fun isScalarNode :: "node \<Rightarrow> bool" where
  "isScalarNode (NullNode _) = True"
| "isScalarNode (BoolNode _) = True"
| "isScalarNode (IntegerNode _) = True"
| "isScalarNode (FloatNode _) = True"
| "isScalarNode (InfinityNode _) = True"
| "isScalarNode (NanNode _) = True"
| "isScalarNode (StringNode _) = True"
| "isScalarNode (MergeKeyNode _) = True"
| "isScalarNode _ = False"

section \<open>Errors and results\<close>

text \<open>
  \<open>ErrSyntax\<close> is \<^verbatim>\<open>errors.ErrSyntax(msg, tk)\<close>, \<open>Wrapf e msg\<close> is
  \<^verbatim>\<open>errors.Wrapf(e, msg)\<close>, \<open>Errorf msg ty\<close> is \<^verbatim>\<open>xerrors.Errorf\<close> with its
  format string and the node type it prints. A call either returns a value, returns an error, or panics on a nil
  dereference; the recursive functions carry fuel, and \<open>None\<close> is fuel running out.
\<close>

datatype error =
    ErrSyntax string "token option"
  | Wrapf error string
  | Errorf string NodeType

datatype 'a outcome = Ok 'a | Err error | Panic

section \<open>Parser context\<close>

text \<open>
  Modelled from the spec: the parser's \<^verbatim>\<open>context\<close>: the token sequence, a cursor and
  the mode flags; \<^verbatim>\<open>currentToken\<close>, \<^verbatim>\<open>nextToken\<close> and \<^verbatim>\<open>afterNextToken\<close> look
  ahead and are nil past the end; \<^verbatim>\<open>progress(n)\<close> advances; \<^verbatim>\<open>next()\<close> is true
  while a current token exists; comment tokens are filtered at construction unless
  \<^verbatim>\<open>ParseComments\<close> (bit 0 of the mode) is set.
\<close>

record parser_context =
  idx :: nat
  tokens :: "token list"
  mode :: nat

definition ParseComments :: nat where
  "ParseComments = 1"

definition newContext :: "token list \<Rightarrow> nat \<Rightarrow> parser_context" where
  "newContext tks m =
     \<lparr>idx = 0,
      tokens = (if odd m then tks else filter (\<lambda>tk. Type tk \<noteq> CommentType) tks),
      mode = m\<rparr>"

definition tokenAt :: "parser_context \<Rightarrow> nat \<Rightarrow> token option" where
  "tokenAt ctx i = (if i < length (tokens ctx) then Some (tokens ctx ! i) else None)"

definition "next" :: "parser_context \<Rightarrow> bool" where
  "next ctx = (idx ctx < length (tokens ctx))"

definition currentToken :: "parser_context \<Rightarrow> token option" where
  "currentToken ctx = tokenAt ctx (idx ctx)"

definition nextToken :: "parser_context \<Rightarrow> token option" where
  "nextToken ctx = tokenAt ctx (idx ctx + 1)"

definition afterNextToken :: "parser_context \<Rightarrow> token option" where
  "afterNextToken ctx = tokenAt ctx (idx ctx + 2)"

definition progress :: "parser_context \<Rightarrow> nat \<Rightarrow> parser_context" where
  "progress ctx num = ctx\<lparr>idx := idx ctx + num\<rparr>"


section \<open>Results of a call\<close>

text \<open>
  \<open>wrapf r msg\<close> is the idiom
  \<^verbatim>\<open>if err != nil { return nil, errors.Wrapf(err, msg) }\<close> applied to the result of a
  call; \<open>andThen\<close> continues with the value of a call that returned one.
\<close>

definition wrapf :: "'a outcome option \<Rightarrow> string \<Rightarrow> 'a outcome option" where
  "wrapf r msg = (case r of Some (Err e) \<Rightarrow> Some (Err (Wrapf e msg)) | _ \<Rightarrow> r)"

definition andThen :: "'a outcome option \<Rightarrow> ('a \<Rightarrow> 'b outcome option) \<Rightarrow> 'b outcome option" where
  "andThen r f =
     (case r of
        None \<Rightarrow> None
      | Some Panic \<Rightarrow> Some Panic
      | Some (Err e) \<Rightarrow> Some (Err e)
      | Some (Ok x) \<Rightarrow> f x)"

section \<open>The parser\<close>

definition newline :: char where
  "newline = CHR 0x0A"

text \<open>\<^verbatim>\<open>strings.Index(s, "\n")\<close>: the index of the first newline, \<open>-1\<close> when there is none.\<close>

fun strings_Index_newline :: "string \<Rightarrow> int" where
  "strings_Index_newline [] = -1"
| "strings_Index_newline (c # cs) =
     (if c = newline then 0
      else (let i = strings_Index_newline cs in if i < 0 then -1 else i + 1))"

definition parseStringValue :: "token \<Rightarrow> node option" where
  "parseStringValue tk =
     (if Type tk = StringType \<or> Type tk = SingleQuoteType \<or> Type tk = DoubleQuoteType
      then Some (StringNode tk) else None)"

definition parseMapKey :: "token \<Rightarrow> node option" where
  "parseMapKey tk =
     (case parseStringValue tk of
        Some node \<Rightarrow> Some node
      | None \<Rightarrow>
          if Type tk = MergeKeyType then Some (MergeKeyNode tk)
          else if Type tk = NullType then Some (NullNode tk)
          else None)"

definition parseScalarValue :: "token \<Rightarrow> node option" where
  "parseScalarValue tk =
     (case parseStringValue tk of
        Some node \<Rightarrow> Some node
      | None \<Rightarrow>
          if Type tk = NullType then Some (NullNode tk)
          else if Type tk = BoolType then Some (BoolNode tk)
          else if Type tk = IntegerType \<or> Type tk = BinaryIntegerType
                  \<or> Type tk = OctetIntegerType \<or> Type tk = HexIntegerType
          then Some (IntegerNode tk)
          else if Type tk = FloatType then Some (FloatNode tk)
          else if Type tk = InfinityType then Some (InfinityNode tk)
          else if Type tk = NanType then Some (NanNode tk)
          else None)"

definition validateMapKey :: "token \<Rightarrow> error option" where
  "validateMapKey tk =
     (if Type tk \<noteq> StringType then None
      else (let origin = dropWhile (\<lambda>c. c = newline) (Origin tk)
            in if strings_Index_newline origin > 0
               then Some (ErrSyntax ''unexpected key name'' (Some tk))
               else None))"


text \<open>
  The parser's methods mutate the context through a pointer; here each returns the
  context it leaves behind, next to its result. A nil \<^verbatim>\<open>ast.Node\<close> is \<open>None\<close>.
  The methods are mutually recursive through \<^verbatim>\<open>parseToken\<close>: each one below takes
  \<^verbatim>\<open>p.parseToken\<close> as its first argument \<open>pt\<close>, and \<open>parseToken\<close> ties the knot by
  recursion on fuel. A loop spends one unit of its own fuel per iteration.
\<close>

type_synonym 'a parsed = "('a \<times> parser_context) outcome option"

type_synonym parseFn = "parser_context \<Rightarrow> token option \<Rightarrow> node option parsed"

fun parseMapping_loop ::
  "parseFn \<Rightarrow> nat \<Rightarrow> parser_context \<Rightarrow> token option \<Rightarrow> MappingValueNode list
     \<Rightarrow> node option parsed" where
  "parseMapping_loop pt 0 ctx start vals = None"
| "parseMapping_loop pt (Suc n) ctx start vals =
     (if next ctx then
        (case currentToken ctx of
           None \<Rightarrow> Some Panic
         | Some tk \<Rightarrow>
             if Type tk = MappingEndType
             then Some (Ok (Some (MappingNode start (Some tk) True vals), ctx))
             else if Type tk = CollectEntryType
             then parseMapping_loop pt n (progress ctx 1) start vals
             else andThen
                    (wrapf (pt ctx (Some tk))
                       ''failed to parse mapping value in mapping node'')
                    (\<lambda>(val, ctx1).
                       case val of
                         Some (MappingValue mvnode) \<Rightarrow>
                           parseMapping_loop pt n (progress ctx1 1) start (vals @ [mvnode])
                       | Some v \<Rightarrow>
                           (case GetToken v of
                              None \<Rightarrow> Some Panic
                            | Some vtk \<Rightarrow>
                                Some (Err (ErrSyntax
                                  ''failed to parse flow mapping value node'' vtk)))
                       | None \<Rightarrow> Some Panic))
      else Some (Ok (Some (MappingNode start None True vals), ctx)))"

definition parseMapping :: "parseFn \<Rightarrow> nat \<Rightarrow> parser_context \<Rightarrow> node option parsed" where
  "parseMapping pt n ctx = parseMapping_loop pt n (progress ctx 1) (currentToken ctx) []"

fun parseSequence_loop ::
  "parseFn \<Rightarrow> nat \<Rightarrow> parser_context \<Rightarrow> token option \<Rightarrow> node option list
     \<Rightarrow> node option parsed" where
  "parseSequence_loop pt 0 ctx start vals = None"
| "parseSequence_loop pt (Suc n) ctx start vals =
     (if next ctx then
        (case currentToken ctx of
           None \<Rightarrow> Some Panic
         | Some tk \<Rightarrow>
             if Type tk = SequenceEndType
             then Some (Ok (Some (SequenceNode start (Some tk) True vals), ctx))
             else if Type tk = CollectEntryType
             then parseSequence_loop pt n (progress ctx 1) start vals
             else andThen
                    (wrapf (pt ctx (Some tk))
                       ''failed to parse sequence value in flow sequence node'')
                    (\<lambda>(val, ctx1).
                       parseSequence_loop pt n (progress ctx1 1) start (vals @ [val])))
      else Some (Ok (Some (SequenceNode start None True vals), ctx)))"

definition parseSequence :: "parseFn \<Rightarrow> nat \<Rightarrow> parser_context \<Rightarrow> node option parsed" where
  "parseSequence pt n ctx = parseSequence_loop pt n (progress ctx 1) (currentToken ctx) []"

definition parseTag :: "parseFn \<Rightarrow> parser_context \<Rightarrow> node option parsed" where
  "parseTag pt ctx =
     (let start = currentToken ctx; ctx1 = progress ctx 1
      in andThen
           (wrapf (pt ctx1 (currentToken ctx1)) ''failed to parse tag value'')
           (\<lambda>(val, ctx2). Some (Ok (Some (TagNode start val), ctx2))))"

text \<open>
  The loop of \<^verbatim>\<open>parseMappingValue\<close> (lines 133 to 153): \<open>vals\<close> is
  \<^verbatim>\<open>node.Values\<close>; \<^verbatim>\<open>ntk\<close> and \<^verbatim>\<open>antk\<close> are read from the context at the head of
  each iteration, where the source reads them before the loop and at the end of its body.
\<close>

fun parseMappingValue_loop ::
  "parseFn \<Rightarrow> nat \<Rightarrow> parser_context \<Rightarrow> int \<Rightarrow> MappingValueNode list
     \<Rightarrow> MappingValueNode list parsed" where
  "parseMappingValue_loop pt 0 ctx keyColumn vals = None"
| "parseMappingValue_loop pt (Suc n) ctx keyColumn vals =
     (let ntk = nextToken ctx; antk = afterNextToken ctx
      in case antk of
           None \<Rightarrow> Some (Ok (vals, ctx))
         | Some a \<Rightarrow>
             if Type a \<noteq> MappingValueType then Some (Ok (vals, ctx))
             else (case ntk of
                     None \<Rightarrow> Some Panic
                   | Some nt \<Rightarrow>
                       if Column (Position nt) \<noteq> keyColumn then Some (Ok (vals, ctx))
                       else
                         (let ctx1 = progress ctx 1
                          in andThen
                               (wrapf (pt ctx1 (currentToken ctx1))
                                  ''failed to parse mapping node'')
                               (\<lambda>(val, ctx2).
                                  case val of
                                    None \<Rightarrow> Some Panic
                                  | Some (MappingNode _ _ _ cvals) \<Rightarrow>
                                      parseMappingValue_loop pt n ctx2 keyColumn (vals @ cvals)
                                  | Some (MappingValue mv) \<Rightarrow>
                                      parseMappingValue_loop pt n ctx2 keyColumn (vals @ [mv])
                                  | Some v \<Rightarrow>
                                      Some (Err (Errorf
                                        ''failed to parse mapping value node node is %s''
                                        (ast_Type v)))))))"

text \<open>Lines 99 to 111: skip the key and the colon, then parse the value or synthesize Null.\<close>

definition parseMappingValue_value ::
  "parseFn \<Rightarrow> parser_context \<Rightarrow> (token option \<times> node option) parsed" where
  "parseMappingValue_value pt ctx =
     (let ctx1 = progress ctx 1;
          tk = currentToken ctx1;
          ctx2 = progress ctx1 1
      in case currentToken ctx2 of
           None \<Rightarrow>
             (case tk of
                None \<Rightarrow> Some Panic
              | Some t \<Rightarrow>
                  Some (Ok ((tk, Some (NullNode (token_New_null (Position t)))), ctx2)))
         | Some vtk \<Rightarrow>
             andThen
               (wrapf (pt ctx2 (Some vtk)) ''failed to parse mapping 'value' node'')
               (\<lambda>(val, ctx3). Some (Ok ((tk, val), ctx3))))"

text \<open>Lines 112 to 158: the same-column check, the sibling loop, and the node returned.\<close>

definition parseMappingValue_group ::
  "parseFn \<Rightarrow> nat \<Rightarrow> parser_context \<Rightarrow> node \<Rightarrow> token \<Rightarrow> token option \<Rightarrow> node option
     \<Rightarrow> node option parsed" where
  "parseMappingValue_group pt n ctx3 key keytk tk val =
     (case val of
        None \<Rightarrow> Some Panic
      | Some v \<Rightarrow>
          (case GetToken v of
             None \<Rightarrow> Some Panic
           | Some None \<Rightarrow> Some Panic
           | Some (Some valtk) \<Rightarrow>
               (let keyColumn = Column (Position keytk);
                    valueColumn = Column (Position valtk)
                in if keyColumn = valueColumn \<and> ast_Type v = ast_StringType
                      \<and> (case nextToken ctx3 of
                            None \<Rightarrow> True
                          | Some ntk \<Rightarrow>
                              Type ntk \<noteq> MappingValueType \<and> Type ntk \<noteq> SequenceEntryType)
                   then Some (Err (ErrSyntax ''could not found expected ':' token''
                                     (Some valtk)))
                   else
                     (let mvnode = MappingValueNode tk key v
                      in andThen
                           (parseMappingValue_loop pt n ctx3 keyColumn [mvnode])
                           (\<lambda>(vals, ctx4).
                              if length vals = 1
                              then Some (Ok (Some (MappingValue mvnode), ctx4))
                              else Some (Ok (Some (MappingNode tk None False vals), ctx4)))))))"

definition parseMappingValue ::
  "parseFn \<Rightarrow> nat \<Rightarrow> parser_context \<Rightarrow> node option parsed" where
  "parseMappingValue pt n ctx =
     (case currentToken ctx of
        None \<Rightarrow> Some Panic
      | Some ktk \<Rightarrow>
          (case parseMapKey ktk of
             None \<Rightarrow>
               Some (Err (ErrSyntax ''unexpected mapping 'key'. key is undefined''
                            (currentToken ctx)))
           | Some key \<Rightarrow>
               (case GetToken key of
                  None \<Rightarrow> Some Panic
                | Some None \<Rightarrow> Some Panic
                | Some (Some keytk) \<Rightarrow>
                    (case validateMapKey keytk of
                       Some e \<Rightarrow> Some (Err (Wrapf e ''validate mapping key error''))
                     | None \<Rightarrow>
                         if \<not> isScalarNode key
                         then Some (Err (ErrSyntax
                                ''unexpected mapping 'key', key is not scalar value''
                                (Some keytk)))
                         else andThen (parseMappingValue_value pt ctx)
                                (\<lambda>((tk, val), ctx3).
                                   parseMappingValue_group pt n ctx3 key keytk tk val)))))"

fun parseSequenceEntry_loop ::
  "parseFn \<Rightarrow> nat \<Rightarrow> parser_context \<Rightarrow> token option \<Rightarrow> int \<Rightarrow> token \<Rightarrow> node option list
     \<Rightarrow> node option parsed" where
  "parseSequenceEntry_loop pt 0 ctx start curColumn tk vals = None"
| "parseSequenceEntry_loop pt (Suc n) ctx start curColumn tk vals =
     (if Type tk = SequenceEntryType then
        (let ctx1 = progress ctx 1
         in andThen
              (wrapf (pt ctx1 (currentToken ctx1)) ''failed to parse sequence'')
              (\<lambda>(val, ctx2).
                 case nextToken ctx2 of
                   None \<Rightarrow> Some (Ok (Some (SequenceNode start None False (vals @ [val])), ctx2))
                 | Some ntk \<Rightarrow>
                     if Type ntk \<noteq> SequenceEntryType
                     then Some (Ok (Some (SequenceNode start None False (vals @ [val])), ctx2))
                     else if Column (Position ntk) \<noteq> curColumn
                     then Some (Ok (Some (SequenceNode start None False (vals @ [val])), ctx2))
                     else parseSequenceEntry_loop pt n (progress ctx2 1) start curColumn ntk
                            (vals @ [val])))
      else Some (Ok (Some (SequenceNode start None False vals), ctx)))"

definition parseSequenceEntry ::
  "parseFn \<Rightarrow> nat \<Rightarrow> parser_context \<Rightarrow> node option parsed" where
  "parseSequenceEntry pt n ctx =
     (case currentToken ctx of
        None \<Rightarrow> Some Panic
      | Some tk \<Rightarrow>
          parseSequenceEntry_loop pt n ctx (Some tk) (Column (Position tk)) tk [])"

definition parseAnchor :: "parseFn \<Rightarrow> parser_context \<Rightarrow> node option parsed" where
  "parseAnchor pt ctx =
     (let tk = currentToken ctx
      in case nextToken ctx of
           None \<Rightarrow> Some (Err (ErrSyntax ''unexpected anchor. anchor name is undefined'' tk))
         | Some _ \<Rightarrow>
             (let ctx1 = progress ctx 1
              in andThen
                   (wrapf (pt ctx1 (currentToken ctx1)) ''failed to parser anchor name node'')
                   (\<lambda>(name, ctx2).
                      case nextToken ctx2 of
                        None \<Rightarrow>
                          Some (Err (ErrSyntax ''unexpected anchor. anchor value is undefined''
                                       (currentToken ctx2)))
                      | Some _ \<Rightarrow>
                          (let ctx3 = progress ctx2 1
                           in andThen
                                (wrapf (pt ctx3 (currentToken ctx3))
                                   ''failed to parser anchor name node'')
                                (\<lambda>(val, ctx4).
                                   Some (Ok (Some (AnchorNode tk name val), ctx4)))))))"

definition parseAlias :: "parseFn \<Rightarrow> parser_context \<Rightarrow> node option parsed" where
  "parseAlias pt ctx =
     (let tk = currentToken ctx
      in case nextToken ctx of
           None \<Rightarrow> Some (Err (ErrSyntax ''unexpected alias. alias name is undefined'' tk))
         | Some _ \<Rightarrow>
             (let ctx1 = progress ctx 1
              in andThen
                   (wrapf (pt ctx1 (currentToken ctx1)) ''failed to parser alias name node'')
                   (\<lambda>(name, ctx2). Some (Ok (Some (AliasNode tk name), ctx2)))))"

definition parseDirective :: "parseFn \<Rightarrow> parser_context \<Rightarrow> node option parsed" where
  "parseDirective pt ctx =
     (let start = currentToken ctx; ctx1 = progress ctx 1
      in andThen
           (wrapf (pt ctx1 (currentToken ctx1)) ''failed to parse directive value'')
           (\<lambda>(val, ctx2).
              let ctx3 = progress ctx2 1
              in case currentToken ctx3 of
                   None \<Rightarrow> Some Panic
                 | Some t \<Rightarrow>
                     if Type t \<noteq> DocumentHeaderType
                     then Some (Err (ErrSyntax
                            ''unexpected directive value. document not started'' (Some t)))
                     else Some (Ok (Some (DirectiveNode start val), ctx3))))"

definition parseLiteral :: "parseFn \<Rightarrow> parser_context \<Rightarrow> node option parsed" where
  "parseLiteral pt ctx =
     (let start = currentToken ctx; ctx1 = progress ctx 1
      in andThen
           (wrapf (pt ctx1 (currentToken ctx1)) ''failed to parse literal/folded value'')
           (\<lambda>(val, ctx2).
              case val of
                Some (StringNode t) \<Rightarrow> Some (Ok (Some (LiteralNode start (StringNode t)), ctx2))
              | Some v \<Rightarrow>
                  (case GetToken v of
                     None \<Rightarrow> Some Panic
                   | Some vtk \<Rightarrow>
                       Some (Err (ErrSyntax ''unexpected token. required string token'' vtk)))
              | None \<Rightarrow> Some Panic))"

definition parseDocument :: "parseFn \<Rightarrow> parser_context \<Rightarrow> node option parsed" where
  "parseDocument pt ctx =
     (let start = currentToken ctx; ctx1 = progress ctx 1
      in andThen
           (wrapf (pt ctx1 (currentToken ctx1)) ''failed to parse document body'')
           (\<lambda>(body, ctx2).
              case nextToken ctx2 of
                None \<Rightarrow> Some (Ok (Some (Document start None body), ctx2))
              | Some ntk \<Rightarrow>
                  if Type ntk = DocumentEndType
                  then Some (Ok (Some (Document start (Some ntk) body), progress ctx2 1))
                  else Some (Ok (Some (Document start None body), ctx2))))"

text \<open>
  \<^verbatim>\<open>parseToken\<close>, with \<open>pt\<close> the method itself on the recursive calls and \<open>n\<close> the
  fuel handed to the loops. \<^verbatim>\<open>tk.NextType()\<close> on a nil token dereferences nil.
\<close>

definition parseToken_body ::
  "parseFn \<Rightarrow> nat \<Rightarrow> parser_context \<Rightarrow> token option \<Rightarrow> node option parsed" where
  "parseToken_body pt n ctx tk =
     (case tk of
        None \<Rightarrow> Some Panic
      | Some t \<Rightarrow>
          if NextType t = MappingValueType then parseMappingValue pt n ctx
          else (case parseScalarValue t of
                  Some node \<Rightarrow> Some (Ok (Some node, ctx))
                | None \<Rightarrow>
                    if Type t = DocumentHeaderType then parseDocument pt ctx
                    else if Type t = MappingStartType then parseMapping pt n ctx
                    else if Type t = SequenceStartType then parseSequence pt n ctx
                    else if Type t = SequenceEntryType then parseSequenceEntry pt n ctx
                    else if Type t = AnchorType then parseAnchor pt ctx
                    else if Type t = AliasType then parseAlias pt ctx
                    else if Type t = DirectiveType then parseDirective pt ctx
                    else if Type t = TagType then parseTag pt ctx
                    else if Type t = LiteralType \<or> Type t = FoldedType then parseLiteral pt ctx
                    else Some (Ok (None, ctx))))"

primrec parseToken :: "nat \<Rightarrow> parseFn" where
  "parseToken 0 = (\<lambda>ctx tk. None)"
| "parseToken (Suc n) = parseToken_body (parseToken n) n"

text \<open>The loop of \<^verbatim>\<open>parse\<close> (lines 356 to 370), then \<^verbatim>\<open>parse\<close>, \<^verbatim>\<open>Parse\<close>.\<close>

text \<open>
  Lines 365 to 369: a node that is a document is appended as it is, any other node as
  the body of a new document.
\<close>

definition toDocument :: "node \<Rightarrow> node" where
  "toDocument nd = (case nd of Document s e b \<Rightarrow> nd | _ \<Rightarrow> Document None None (Some nd))"

fun parse_loop :: "nat \<Rightarrow> parser_context \<Rightarrow> node list \<Rightarrow> File outcome option" where
  "parse_loop 0 ctx docs = None"
| "parse_loop (Suc n) ctx docs =
     (if next ctx then
        andThen (wrapf (parseToken n ctx (currentToken ctx)) ''failed to parse'')
          (\<lambda>(node, ctx1).
             let ctx2 = progress ctx1 1
             in case node of
                  None \<Rightarrow> parse_loop n ctx2 docs
                | Some nd \<Rightarrow> parse_loop n ctx2 (docs @ [toDocument nd]))
      else Some (Ok \<lparr>Docs = docs\<rparr>))"

definition parse :: "nat \<Rightarrow> token list \<Rightarrow> nat \<Rightarrow> File outcome option" where
  "parse n tks m = parse_loop n (newContext tks m) []"

definition Parse :: "nat \<Rightarrow> token list \<Rightarrow> nat \<Rightarrow> File outcome option" where
  "Parse n tks m = wrapf (parse n tks m) ''failed to parse''"

section \<open>Token constructors\<close>

text \<open>
  Modelled from the spec: the kind of a plain scalar, chosen by \<^verbatim>\<open>token.New\<close> at flush
  time by matching the literal, in this order: null; the booleans, case-insensitively;
  infinity; not-a-number; binary, octal and hexadecimal integers; digit runs with an
  optional sign; decimal fractions; otherwise String. Of the floating-point forms only
  \<open>digits.digits\<close> with an optional sign is recognised here; no property below depends
  on the kind of a plain scalar.
\<close>

definition isDigit :: "char \<Rightarrow> bool" where
  "isDigit c = (c \<in> set ''0123456789'')"

definition lowerChar :: "char \<Rightarrow> char" where
  "lowerChar c =
     (if c \<in> set ''ABCDEFGHIJKLMNOPQRSTUVWXYZ'' then char_of (of_char c + (32::nat)) else c)"

definition dropSign :: "string \<Rightarrow> string" where
  "dropSign v = (case v of c # cs \<Rightarrow> if c = CHR ''-'' \<or> c = CHR ''+'' then cs else v | [] \<Rightarrow> v)"

definition tokenKind :: "string \<Rightarrow> Type" where
  "tokenKind v =
     (let l = map lowerChar v; u = dropSign v
      in if v = ''null'' \<or> v = ''~'' \<or> v = [] then NullType
         else if l \<in> set [''true'', ''false'', ''yes'', ''no'', ''on'', ''off''] then BoolType
         else if v = ''.inf'' \<or> v = ''-.inf'' then InfinityType
         else if v = ''.nan'' then NanType
         else if take 2 v = ''0b'' \<and> drop 2 v \<noteq> [] \<and> (\<forall>c \<in> set (drop 2 v). c \<in> set ''01'')
         then BinaryIntegerType
         else if take 2 v = ''0o'' \<and> drop 2 v \<noteq> []
                 \<and> (\<forall>c \<in> set (drop 2 v). c \<in> set ''01234567'')
         then OctetIntegerType
         else if take 1 v = ''0'' \<and> drop 1 v \<noteq> []
                 \<and> (\<forall>c \<in> set (drop 1 v). c \<in> set ''01234567'')
         then OctetIntegerType
         else if take 2 v = ''0x'' \<and> drop 2 v \<noteq> []
                 \<and> (\<forall>c \<in> set (drop 2 v). c \<in> set ''0123456789abcdefABCDEF'')
         then HexIntegerType
         else if u \<noteq> [] \<and> (\<forall>c \<in> set u. isDigit c) then IntegerType
         else if takeWhile isDigit u \<noteq> []
                 \<and> take 1 (dropWhile isDigit u) = ''.''
                 \<and> drop 1 (dropWhile isDigit u) \<noteq> []
                 \<and> (\<forall>c \<in> set (drop 1 (dropWhile isDigit u)). isDigit c)
         then FloatType
         else StringType)"

text \<open>
  Modelled from the spec: the constructors of \<^verbatim>\<open>token\<close> the scanner calls. A
  constructor with a fixed lexeme takes the position only.
\<close>

definition mkToken :: "Type \<Rightarrow> string \<Rightarrow> string \<Rightarrow> Position \<Rightarrow> token" where
  "mkToken ty v org pos =
     \<lparr>Type = ty, Value = v, Origin = org, Position = pos, NextType = UnknownType\<rparr>"

definition token_New :: "string \<Rightarrow> string \<Rightarrow> Position \<Rightarrow> token" where
  "token_New v org pos = mkToken (tokenKind v) v org pos"

definition token_MappingStart :: "string \<Rightarrow> Position \<Rightarrow> token" where
  "token_MappingStart org pos = mkToken MappingStartType ''{'' org pos"

definition token_MappingEnd :: "string \<Rightarrow> Position \<Rightarrow> token" where
  "token_MappingEnd org pos = mkToken MappingEndType ''}'' org pos"

definition token_SequenceStart :: "string \<Rightarrow> Position \<Rightarrow> token" where
  "token_SequenceStart org pos = mkToken SequenceStartType ''['' org pos"

definition token_SequenceEnd :: "string \<Rightarrow> Position \<Rightarrow> token" where
  "token_SequenceEnd org pos = mkToken SequenceEndType '']'' org pos"

definition token_CollectEntry :: "string \<Rightarrow> Position \<Rightarrow> token" where
  "token_CollectEntry org pos = mkToken CollectEntryType '','' org pos"

definition token_SequenceEntry :: "string \<Rightarrow> Position \<Rightarrow> token" where
  "token_SequenceEntry org pos = mkToken SequenceEntryType ''-'' org pos"

definition token_MergeKey :: "string \<Rightarrow> Position \<Rightarrow> token" where
  "token_MergeKey org pos = mkToken MergeKeyType ''<<'' org pos"

definition token_Anchor :: "string \<Rightarrow> Position \<Rightarrow> token" where
  "token_Anchor org pos = mkToken AnchorType ''&'' org pos"

definition token_Alias :: "string \<Rightarrow> Position \<Rightarrow> token" where
  "token_Alias org pos = mkToken AliasType ''*'' org pos"

definition token_MappingValue :: "Position \<Rightarrow> token" where
  "token_MappingValue pos = mkToken MappingValueType '':'' '':'' pos"

definition token_DocumentHeader :: "Position \<Rightarrow> token" where
  "token_DocumentHeader pos = mkToken DocumentHeaderType ''---'' ''---'' pos"

definition token_DocumentEnd :: "Position \<Rightarrow> token" where
  "token_DocumentEnd pos = mkToken DocumentEndType ''...'' ''...'' pos"

definition token_Directive :: "Position \<Rightarrow> token" where
  "token_Directive pos = mkToken DirectiveType ''%'' ''%'' pos"

definition token_Literal :: "string \<Rightarrow> string \<Rightarrow> Position \<Rightarrow> token" where
  "token_Literal v org pos = mkToken LiteralType v org pos"

definition token_Folded :: "string \<Rightarrow> string \<Rightarrow> Position \<Rightarrow> token" where
  "token_Folded v org pos = mkToken FoldedType v org pos"

definition token_Tag :: "string \<Rightarrow> string \<Rightarrow> Position \<Rightarrow> token" where
  "token_Tag v org pos = mkToken TagType v org pos"

definition token_Comment :: "string \<Rightarrow> string \<Rightarrow> Position \<Rightarrow> token" where
  "token_Comment v org pos = mkToken CommentType v org pos"

definition token_SingleQuote :: "string \<Rightarrow> string \<Rightarrow> Position \<Rightarrow> token" where
  "token_SingleQuote v org pos = mkToken SingleQuoteType v org pos"

definition token_DoubleQuote :: "string \<Rightarrow> string \<Rightarrow> Position \<Rightarrow> token" where
  "token_DoubleQuote v org pos = mkToken DoubleQuoteType v org pos"

section \<open>Scanner context\<close>

text \<open>
  Modelled from the spec: the scanner's \<^verbatim>\<open>Context\<close>, the work area of one
  \<^verbatim>\<open>Scan()\<close> call: the remaining source, the cursor, the semantic buffer, the original
  buffer, the tokens accumulated, and the block-scalar flags; and its operations.
  \<^verbatim>\<open>isEOS\<close> holds from the last character on, \<^verbatim>\<open>isNextEOS\<close> one character earlier;
  the character accessors return NUL outside the source.
\<close>

record Context =
  sidx :: nat
  src :: string
  buf :: string
  obuf :: string
  stokens :: "token list"
  isRawFolded :: bool
  isLiteral :: bool
  isFolded :: bool
  literalOpt :: string

definition newScanContext :: "string \<Rightarrow> Context" where
  "newScanContext s =
     \<lparr>sidx = 0, src = s, buf = [], obuf = [], stokens = [],
      isRawFolded = False, isLiteral = False, isFolded = False, literalOpt = []\<rparr>"

definition TrimLeft_space :: "string \<Rightarrow> string" where
  "TrimLeft_space s = dropWhile (\<lambda>c. c = CHR '' '') s"

definition TrimRight_space :: "string \<Rightarrow> string" where
  "TrimRight_space s = rev (dropWhile (\<lambda>c. c = CHR '' '') (rev s))"

definition ctx_next :: "Context \<Rightarrow> bool" where
  "ctx_next c = (sidx c < length (src c))"

definition ctx_nextPos :: "Context \<Rightarrow> nat" where
  "ctx_nextPos c = sidx c + 1"

definition ctx_progress :: "Context \<Rightarrow> nat \<Rightarrow> Context" where
  "ctx_progress c num = c\<lparr>sidx := sidx c + num\<rparr>"

definition addBuf :: "Context \<Rightarrow> char \<Rightarrow> Context" where
  "addBuf c r = c\<lparr>buf := buf c @ [r]\<rparr>"

definition addOriginBuf :: "Context \<Rightarrow> char \<Rightarrow> Context" where
  "addOriginBuf c r = c\<lparr>obuf := obuf c @ [r]\<rparr>"

definition resetBuffer :: "Context \<Rightarrow> Context" where
  "resetBuffer c = c\<lparr>buf := [], obuf := []\<rparr>"

definition bufferedSrc :: "Context \<Rightarrow> string" where
  "bufferedSrc c = TrimLeft_space (buf c)"

definition isSaveIndentMode :: "Context \<Rightarrow> bool" where
  "isSaveIndentMode c = (isLiteral c \<or> isFolded c \<or> isRawFolded c)"

text \<open>
  \<^verbatim>\<open>breakLiteral\<close> clears the block-scalar flags; the body accumulated so far has been
  flushed by the call of \<^verbatim>\<open>addBufferedTokenIfExists\<close> that precedes it in \<^verbatim>\<open>scan\<close>.
\<close>

definition ctx_breakLiteral :: "Context \<Rightarrow> Context" where
  "ctx_breakLiteral c =
     c\<lparr>isLiteral := False, isRawFolded := False, isFolded := False, literalOpt := []\<rparr>"

definition addToken :: "Context \<Rightarrow> token option \<Rightarrow> Context" where
  "addToken c tk = (case tk of None \<Rightarrow> c | Some t \<Rightarrow> c\<lparr>stokens := stokens c @ [t]\<rparr>)"

definition isEOS :: "Context \<Rightarrow> bool" where
  "isEOS c = (int (length (src c)) - 1 \<le> int (sidx c))"

definition isNextEOS :: "Context \<Rightarrow> bool" where
  "isNextEOS c = (int (length (src c)) - 1 \<le> int (sidx c) + 1)"

definition NUL :: char where
  "NUL = CHR 0x00"

definition previousChar :: "Context \<Rightarrow> char" where
  "previousChar c =
     (if 0 < sidx c \<and> sidx c - 1 < length (src c) then src c ! (sidx c - 1) else NUL)"

definition currentChar :: "Context \<Rightarrow> char" where
  "currentChar c = (if sidx c < length (src c) then src c ! sidx c else NUL)"

definition nextChar :: "Context \<Rightarrow> char" where
  "nextChar c = (if sidx c + 1 < length (src c) then src c ! (sidx c + 1) else NUL)"

definition repeatNum :: "Context \<Rightarrow> char \<Rightarrow> nat" where
  "repeatNum c r = length (takeWhile (\<lambda>x. x = r) (drop (sidx c) (src c)))"

definition ctx_source :: "Context \<Rightarrow> nat \<Rightarrow> nat \<Rightarrow> string" where
  "ctx_source c s e = take (e - s) (drop s (src c))"

text \<open>
  \<^verbatim>\<open>ctx.bufferedToken(pos)\<close>: when nothing is buffered there is no token; otherwise
  the buffer is flushed as one token whose value is the left-trimmed buffer and whose
  origin is the original buffer.
\<close>

definition ctx_bufferedToken :: "Context \<Rightarrow> Position \<Rightarrow> token option \<times> Context" where
  "ctx_bufferedToken c pos =
     (let source = bufferedSrc c
      in if length source = 0 then (None, c)
         else (Some (token_New source (obuf c) pos), resetBuffer c))"

section \<open>The scanner\<close>

datatype IndentState =
    IndentStateEqual
  | IndentStateUp
  | IndentStateDown
  | IndentStateKeep

record Scanner =
  source :: string
  sourcePos :: nat
  sourceSize :: nat
  line :: int
  column :: int
  offset :: int
  prevIndentLevel :: int
  prevIndentNum :: int
  prevIndentColumn :: int
  indentLevel :: int
  indentNum :: int
  isFirstCharAtLine :: bool
  isAnchor :: bool
  isStartedFlowSequence :: bool
  isStartedFlowMap :: bool
  indentState :: IndentState
  savedPos :: "Position option"

text \<open>The zero value of \<^verbatim>\<open>Scanner\<close>, as \<^verbatim>\<open>var s scanner.Scanner\<close> declares it.\<close>

definition zeroScanner :: Scanner where
  "zeroScanner =
     \<lparr>source = [], sourcePos = 0, sourceSize = 0, line = 0, column = 0, offset = 0,
      prevIndentLevel = 0, prevIndentNum = 0, prevIndentColumn = 0, indentLevel = 0,
      indentNum = 0, isFirstCharAtLine = False, isAnchor = False,
      isStartedFlowSequence = False, isStartedFlowMap = False,
      indentState = IndentStateEqual, savedPos = None\<rparr>"

definition Init :: "Scanner \<Rightarrow> string \<Rightarrow> Scanner" where
  "Init s text =
     s\<lparr>source := text, sourcePos := 0, sourceSize := length text,
       line := 1, column := 1, offset := 1,
       prevIndentLevel := 0, prevIndentNum := 0, prevIndentColumn := 0,
       indentLevel := 0, indentNum := 0, isFirstCharAtLine := True\<rparr>"

definition Scanner_pos :: "Scanner \<Rightarrow> Position" where
  "Scanner_pos s =
     \<lparr>Line = line s, Column = column s, Offset = offset s,
      IndentNum = indentNum s, IndentLevel = indentLevel s\<rparr>"

definition Scanner_bufferedToken ::
  "Scanner \<Rightarrow> Context \<Rightarrow> token option \<times> Scanner \<times> Context" where
  "Scanner_bufferedToken s ctx =
     (case savedPos s of
        Some sp \<Rightarrow>
          (let (tk, ctx1) = ctx_bufferedToken ctx sp
           in (tk, s\<lparr>savedPos := None\<rparr>, ctx1))
      | None \<Rightarrow>
          (let trimmedSrc = TrimLeft_space (buf ctx);
               size = int (length trimmedSrc);
               (tk, ctx1) = ctx_bufferedToken ctx
                 \<lparr>Line = line s, Column = column s - size, Offset = offset s - size,
                  IndentNum = indentNum s, IndentLevel = indentLevel s\<rparr>
           in (tk, s, ctx1)))"

definition progressColumn :: "Scanner \<Rightarrow> Context \<Rightarrow> nat \<Rightarrow> Scanner \<times> Context" where
  "progressColumn s ctx num =
     (s\<lparr>column := column s + int num, offset := offset s + int num\<rparr>, ctx_progress ctx num)"

definition progressLine :: "Scanner \<Rightarrow> Context \<Rightarrow> Scanner \<times> Context" where
  "progressLine s ctx =
     (s\<lparr>column := 1, line := line s + 1, offset := offset s + 1, indentNum := 0,
        isFirstCharAtLine := True, isAnchor := False\<rparr>,
      ctx_progress ctx 1)"

definition updateIndent :: "Scanner \<Rightarrow> char \<Rightarrow> Scanner" where
  "updateIndent s c =
     (if isFirstCharAtLine s \<and> c = CHR '' '' then s\<lparr>indentNum := indentNum s + 1\<rparr>
      else if \<not> isFirstCharAtLine s then s\<lparr>indentState := IndentStateKeep\<rparr>
      else
        (let s1 =
               (if prevIndentNum s < indentNum s
                then s\<lparr>indentLevel := prevIndentLevel s + 1, indentState := IndentStateUp\<rparr>
                else if prevIndentNum s = indentNum s
                then s\<lparr>indentLevel := prevIndentLevel s, indentState := IndentStateEqual\<rparr>
                else (let s0 = s\<lparr>indentState := IndentStateDown\<rparr>
                      in if prevIndentLevel s0 > 0
                         then s0\<lparr>indentLevel := prevIndentLevel s0 - 1\<rparr>
                         else s0));
             s2 =
               (if prevIndentColumn s1 > 0
                then (if prevIndentColumn s1 < column s1
                      then s1\<lparr>indentState := IndentStateUp\<rparr>
                      else if prevIndentColumn s1 = column s1
                      then s1\<lparr>indentState := IndentStateEqual\<rparr>
                      else s1\<lparr>indentState := IndentStateDown\<rparr>)
                else s1)
         in s2\<lparr>prevIndentNum := indentNum s2, prevIndentColumn := 0,
                prevIndentLevel := indentLevel s2, isFirstCharAtLine := False\<rparr>))"

definition isChangedToIndentStateDown :: "Scanner \<Rightarrow> bool" where
  "isChangedToIndentStateDown s = (indentState s = IndentStateDown)"

definition isChangedToIndentStateUp :: "Scanner \<Rightarrow> bool" where
  "isChangedToIndentStateUp s = (indentState s = IndentStateUp)"

definition isChangedToIndentStateEqual :: "Scanner \<Rightarrow> bool" where
  "isChangedToIndentStateEqual s = (indentState s = IndentStateEqual)"

definition addBufferedTokenIfExists :: "Scanner \<Rightarrow> Context \<Rightarrow> Scanner \<times> Context" where
  "addBufferedTokenIfExists s ctx =
     (let (tk, s1, ctx1) = Scanner_bufferedToken s ctx in (s1, addToken ctx1 tk))"

definition backslash :: char where
  "backslash = CHR 0x5C"

definition singleQuote :: char where
  "singleQuote = CHR 0x27"

definition doubleQuote :: char where
  "doubleQuote = CHR 0x22"

text \<open>
  The \<^verbatim>\<open>range\<close> loops of the sub-scanners run over the rest of the source; \<open>i\<close> is the
  loop index and \<open>p\<close> the named result \<^verbatim>\<open>pos\<close> as last assigned.
\<close>

fun scanQuote_loop ::
  "Scanner \<Rightarrow> Context \<Rightarrow> char \<Rightarrow> nat \<Rightarrow> nat \<Rightarrow> string \<Rightarrow> nat
     \<Rightarrow> token option \<times> nat \<times> Context" where
  "scanQuote_loop s ctx ch startIndex i [] p = (None, p, ctx)"
| "scanQuote_loop s ctx ch startIndex i (c # cs) p =
     (let ctx1 = addOriginBuf ctx c
      in if c = ch then
           (if previousChar ctx1 = backslash
            then scanQuote_loop s ctx1 ch startIndex (i + 1) cs (i + 1)
            else (let v = ctx_source ctx1 startIndex (startIndex + i);
                      tk = (if ch = singleQuote
                            then Some (token_SingleQuote v (obuf ctx1) (Scanner_pos s))
                            else if ch = doubleQuote
                            then Some (token_DoubleQuote v (obuf ctx1) (Scanner_pos s))
                            else None)
                  in (tk, length v + 1, ctx1)))
         else scanQuote_loop s ctx1 ch startIndex (i + 1) cs (i + 1))"

definition scanQuote :: "Scanner \<Rightarrow> Context \<Rightarrow> char \<Rightarrow> token option \<times> nat \<times> Context" where
  "scanQuote s ctx ch =
     (let ctx1 = addOriginBuf ctx ch;
          startIndex = sidx ctx1 + 1;
          ctx2 = ctx_progress ctx1 1
      in scanQuote_loop s ctx2 ch startIndex 0 (drop startIndex (src ctx2)) 0)"

fun scanTag_loop ::
  "Scanner \<Rightarrow> Context \<Rightarrow> nat \<Rightarrow> string \<Rightarrow> nat \<Rightarrow> token option \<times> nat \<times> Context" where
  "scanTag_loop s ctx i [] p = (None, p, ctx)"
| "scanTag_loop s ctx i (c # cs) p =
     (let ctx1 = addOriginBuf ctx c
      in if c = CHR '' '' \<or> c = newline then
           (let v = ctx_source ctx1 (sidx ctx1 - 1) (sidx ctx1 + i)
            in (Some (token_Tag v (obuf ctx1) (Scanner_pos s)), length v, ctx1))
         else scanTag_loop s ctx1 (i + 1) cs (i + 1))"

definition scanTag :: "Scanner \<Rightarrow> Context \<Rightarrow> token option \<times> nat \<times> Context" where
  "scanTag s ctx =
     (let ctx1 = addOriginBuf ctx (CHR ''!'');
          ctx2 = ctx_progress ctx1 1
      in scanTag_loop s ctx2 0 (drop (sidx ctx2) (src ctx2)) 0)"

fun scanComment_loop ::
  "Scanner \<Rightarrow> Context \<Rightarrow> nat \<Rightarrow> string \<Rightarrow> nat \<Rightarrow> token option \<times> nat \<times> Context" where
  "scanComment_loop s ctx i [] p = (None, p, ctx)"
| "scanComment_loop s ctx i (c # cs) p =
     (let ctx1 = addOriginBuf ctx c
      in if c = newline then
           (if previousChar ctx1 = backslash
            then scanComment_loop s ctx1 (i + 1) cs (i + 1)
            else (let v = ctx_source ctx1 (sidx ctx1) (sidx ctx1 + i)
                  in (Some (token_Comment v (obuf ctx1) (Scanner_pos s)), length v + 1, ctx1)))
         else scanComment_loop s ctx1 (i + 1) cs (i + 1))"

definition scanComment :: "Scanner \<Rightarrow> Context \<Rightarrow> token option \<times> nat \<times> Context" where
  "scanComment s ctx =
     (let ctx1 = addOriginBuf ctx (CHR ''#'');
          ctx2 = ctx_progress ctx1 1
      in scanComment_loop s ctx2 0 (drop (sidx ctx2) (src ctx2)) 0)"

definition scanLiteral :: "Scanner \<Rightarrow> Context \<Rightarrow> char \<Rightarrow> Scanner \<times> Context" where
  "scanLiteral s ctx c =
     (let ctx1 = (if isEOS ctx
                  then addToken ctx
                         (Some (token_New (bufferedSrc ctx) (obuf ctx) (Scanner_pos s)))
                  else ctx);
          (s2, ctx2) =
            (if c = newline
             then progressLine s (if isLiteral ctx1 then addBuf ctx1 c
                                  else addBuf ctx1 (CHR '' ''))
             else if isFirstCharAtLine s \<and> c = CHR '' ''
             then progressColumn s ctx1 1
             else progressColumn s (addBuf ctx1 c) 1)
      in (s2, addOriginBuf ctx2 c))"

text \<open>
  The options a header may carry: none, \<^verbatim>\<open>+\<close>, \<^verbatim>\<open>-\<close>, or one digit (the cases of
  the inner switch, lines 723 and 724).
\<close>

definition literalOptions :: "string list" where
  "literalOptions = [] # ''+'' # ''-'' # map (\<lambda>d. [d]) ''0123456789''"

text \<open>
  \<^verbatim>\<open>scanLiteralHeader\<close> returns \<^verbatim>\<open>(pos, err)\<close>; \<open>err\<close> is the message of the error, if
  any. The \<^verbatim>\<open>break\<close> after the inner switch leaves the outer switch only, so the loop
  goes on to the next character.
\<close>

fun scanLiteralHeader_loop ::
  "Scanner \<Rightarrow> Context \<Rightarrow> char \<Rightarrow> nat \<Rightarrow> string \<Rightarrow> nat \<Rightarrow> nat \<times> string option \<times> Context" where
  "scanLiteralHeader_loop s ctx header i [] p = (p, Some ''invalid literal header'', ctx)"
| "scanLiteralHeader_loop s ctx header i (c # cs) p =
     (let ctx1 = addOriginBuf ctx c
      in if c = newline then
           (let v = ctx_source ctx1 (sidx ctx1) (sidx ctx1 + i);
                opt = TrimRight_space v
            in if opt \<in> set literalOptions then
                 (let ctx2 =
                        (if header = CHR ''|''
                         then (addToken ctx1
                                 (Some (token_Literal (''|'' @ opt) (obuf ctx1) (Scanner_pos s))))
                              \<lparr>isLiteral := True\<rparr>
                         else if header = CHR ''>''
                         then (addToken ctx1
                                 (Some (token_Folded (''>'' @ opt) (obuf ctx1) (Scanner_pos s))))
                              \<lparr>isFolded := True\<rparr>
                         else ctx1);
                      ctx3 = resetBuffer ctx2
                  in (i, None, ctx3\<lparr>literalOpt := opt\<rparr>))
               else scanLiteralHeader_loop s ctx1 header (i + 1) cs i)
         else scanLiteralHeader_loop s ctx1 header (i + 1) cs i)"

definition scanLiteralHeader :: "Scanner \<Rightarrow> Context \<Rightarrow> nat \<times> string option \<times> Context" where
  "scanLiteralHeader s ctx =
     (let header = currentChar ctx;
          ctx1 = addOriginBuf ctx header;
          ctx2 = ctx_progress ctx1 1
      in scanLiteralHeader_loop s ctx2 header 0 (drop (sidx ctx2) (src ctx2)) 0)"

definition scanNewLine :: "Scanner \<Rightarrow> Context \<Rightarrow> char \<Rightarrow> Scanner \<times> Context" where
  "scanNewLine s ctx c =
     (let s1 = (if length (buf ctx) > 0 \<and> savedPos s = None
                then s\<lparr>savedPos :=
                         Some ((Scanner_pos s)
                           \<lparr>Column := column s - int (length (bufferedSrc ctx))\<rparr>)\<rparr>
                else s);
          (s2, ctx2) = (if isEOS ctx then addBufferedTokenIfExists s1 ctx
                        else if isAnchor s1 then addBufferedTokenIfExists s1 ctx
                        else (s1, ctx));
          ctx3 = addBuf ctx2 (CHR '' '');
          ctx4 = addOriginBuf ctx3 c
      in progressLine s2 ctx4)"

text \<open>
  One iteration of the loop of \<^verbatim>\<open>scan\<close> either goes on (\<^verbatim>\<open>continue\<close>, or the end of
  the loop body) or returns the position reached.
\<close>

datatype scan_step = Continue Scanner Context | Return nat Scanner Context

text \<open>The end of the loop body (lines 959 to 961), reached when no case of the switch left.\<close>

definition scan_plain :: "Scanner \<Rightarrow> Context \<Rightarrow> char \<Rightarrow> scan_step" where
  "scan_plain s ctx c =
     (let ctx1 = addBuf ctx c;
          ctx2 = addOriginBuf ctx1 c;
          (s3, ctx3) = progressColumn s ctx2 1
      in Continue s3 ctx3)"

text \<open>The switch on the current character (lines 776 to 958); \<open>p\<close> is \<^verbatim>\<open>pos\<close>.\<close>

definition scan_switch :: "Scanner \<Rightarrow> Context \<Rightarrow> nat \<Rightarrow> char \<Rightarrow> scan_step" where
  "scan_switch s ctx p c =
     (if c = CHR ''{'' then
        (if bufferedSrc ctx = [] then
           (let ctx1 = addOriginBuf ctx c;
                ctx2 = addToken ctx1 (Some (token_MappingStart (obuf ctx1) (Scanner_pos s)));
                s1 = s\<lparr>isStartedFlowMap := True\<rparr>;
                (s2, ctx3) = progressColumn s1 ctx2 1
            in Return p s2 ctx3)
         else scan_plain s ctx c)
      else if c = CHR ''}'' then
        (if bufferedSrc ctx = [] \<or> isStartedFlowMap s then
           (let (tk, s1, ctx1) = Scanner_bufferedToken s ctx;
                ctx2 = addToken ctx1 tk;
                ctx3 = addOriginBuf ctx2 c;
                ctx4 = addToken ctx3 (Some (token_MappingEnd (obuf ctx3) (Scanner_pos s1)));
                s2 = s1\<lparr>isStartedFlowMap := False\<rparr>;
                (s3, ctx5) = progressColumn s2 ctx4 1
            in Return p s3 ctx5)
         else scan_plain s ctx c)
      else if c = CHR ''.'' then
        (if indentNum s = 0 \<and> repeatNum ctx (CHR ''.'') = 3 then
           (let ctx1 = addToken ctx (Some (token_DocumentEnd (Scanner_pos s)));
                (s1, ctx2) = progressColumn s ctx1 3
            in Return (p + 2) s1 ctx2)
         else scan_plain s ctx c)
      else if c = CHR ''<'' then
        (if repeatNum ctx (CHR ''<'') = 2 then
           (let s1 = s\<lparr>prevIndentColumn := column s\<rparr>;
                ctx1 = addToken ctx
                         (Some (token_MergeKey (obuf ctx @ ''<<'') (Scanner_pos s1)));
                (s2, ctx2) = progressColumn s1 ctx1 1
            in Return (p + 1) s2 ctx2)
         else scan_plain s ctx c)
      else if c = CHR ''-'' then
        (if indentNum s = 0 \<and> repeatNum ctx (CHR ''-'') = 3 then
           (let (s1, ctx1) = addBufferedTokenIfExists s ctx;
                ctx2 = addToken ctx1 (Some (token_DocumentHeader (Scanner_pos s1)));
                (s2, ctx3) = progressColumn s1 ctx2 3
            in Return (p + 2) s2 ctx3)
         else if bufferedSrc ctx \<noteq> [] \<and> isChangedToIndentStateUp s then
           (let ctx1 = ctx\<lparr>isRawFolded := True\<rparr>;
                ctx2 = addBuf ctx1 c;
                ctx3 = addOriginBuf ctx2 c;
                (s1, ctx4) = progressColumn s ctx3 1
            in Continue s1 ctx4)
         else if nextChar ctx = CHR '' '' then
           (let (s1, ctx1) = addBufferedTokenIfExists s ctx;
                ctx2 = addOriginBuf ctx1 c;
                tk = token_SequenceEntry (obuf ctx2) (Scanner_pos s1);
                s2 = s1\<lparr>prevIndentColumn := Column (Position tk)\<rparr>;
                ctx3 = addToken ctx2 (Some tk);
                (s3, ctx4) = progressColumn s2 ctx3 1
            in Return p s3 ctx4)
         else scan_plain s ctx c)
      else if c = CHR ''['' then
        (if bufferedSrc ctx = [] then
           (let ctx1 = addOriginBuf ctx c;
                ctx2 = addToken ctx1 (Some (token_SequenceStart (obuf ctx1) (Scanner_pos s)));
                s1 = s\<lparr>isStartedFlowSequence := True\<rparr>;
                (s2, ctx3) = progressColumn s1 ctx2 1
            in Return p s2 ctx3)
         else scan_plain s ctx c)
      else if c = CHR '']'' then
        (if bufferedSrc ctx = [] \<or> isStartedFlowSequence s then
           (let (s1, ctx1) = addBufferedTokenIfExists s ctx;
                ctx2 = addOriginBuf ctx1 c;
                ctx3 = addToken ctx2 (Some (token_SequenceEnd (obuf ctx2) (Scanner_pos s1)));
                s2 = s1\<lparr>isStartedFlowSequence := False\<rparr>;
                (s3, ctx4) = progressColumn s2 ctx3 1
            in Return p s3 ctx4)
         else scan_plain s ctx c)
      else if c = CHR '','' then
        (if isStartedFlowSequence s \<or> isStartedFlowMap s then
           (let (s1, ctx1) = addBufferedTokenIfExists s ctx;
                ctx2 = addOriginBuf ctx1 c;
                ctx3 = addToken ctx2 (Some (token_CollectEntry (obuf ctx2) (Scanner_pos s1)));
                (s2, ctx4) = progressColumn s1 ctx3 1
            in Return p s2 ctx4)
         else scan_plain s ctx c)
      else if c = CHR '':'' then
        (let nc = nextChar ctx
         in if nc = CHR '' '' \<or> nc = newline \<or> isNextEOS ctx then
              (let (tk, s1, ctx1) = Scanner_bufferedToken s ctx;
                   (s2, ctx2) =
                     (case tk of
                        Some t \<Rightarrow>
                          (s1\<lparr>prevIndentColumn := Column (Position t)\<rparr>, addToken ctx1 (Some t))
                      | None \<Rightarrow> (s1, ctx1));
                   ctx3 = addToken ctx2 (Some (token_MappingValue (Scanner_pos s2)));
                   (s3, ctx4) = progressColumn s2 ctx3 1
               in Return p s3 ctx4)
            else scan_plain s ctx c)
      else if c = CHR ''|'' \<or> c = CHR ''>'' then
        (if bufferedSrc ctx = [] then
           (let (progress, err, ctx1) = scanLiteralHeader s ctx
            in case err of
                 Some _ \<Rightarrow> Return p s ctx1
               | None \<Rightarrow>
                   (let (s1, ctx2) = progressColumn s ctx1 progress;
                        (s2, ctx3) = progressLine s1 ctx2
                    in Continue s2 ctx3))
         else scan_plain s ctx c)
      else if c = CHR ''!'' then
        (if bufferedSrc ctx = [] then
           (let (tk, progress, ctx1) = scanTag s ctx;
                ctx2 = addToken ctx1 tk;
                (s1, ctx3) = progressColumn s ctx2 progress;
                (s2, ctx4) = (if previousChar ctx3 = newline then progressLine s1 ctx3
                              else (s1, ctx3))
            in Return (p + progress) s2 ctx4)
         else scan_plain s ctx c)
      else if c = CHR ''%'' then
        (if bufferedSrc ctx = [] \<and> indentNum s = 0 then
           (let ctx1 = addToken ctx (Some (token_Directive (Scanner_pos s)));
                (s1, ctx2) = progressColumn s ctx1 1
            in Return p s1 ctx2)
         else scan_plain s ctx c)
      else if c = CHR ''?'' then
        (if bufferedSrc ctx = [] \<and> nextChar ctx = CHR '' '' then
           (let ctx1 = addToken ctx (Some (token_Directive (Scanner_pos s)));
                (s1, ctx2) = progressColumn s ctx1 1
            in Return p s1 ctx2)
         else scan_plain s ctx c)
      else if c = CHR ''&'' then
        (if bufferedSrc ctx = [] then
           (let (s1, ctx1) = addBufferedTokenIfExists s ctx;
                ctx2 = addOriginBuf ctx1 c;
                ctx3 = addToken ctx2 (Some (token_Anchor (obuf ctx2) (Scanner_pos s1)));
                (s2, ctx4) = progressColumn s1 ctx3 1
            in Return p (s2\<lparr>isAnchor := True\<rparr>) ctx4)
         else scan_plain s ctx c)
      else if c = CHR ''*'' then
        (if bufferedSrc ctx = [] then
           (let (s1, ctx1) = addBufferedTokenIfExists s ctx;
                ctx2 = addOriginBuf ctx1 c;
                ctx3 = addToken ctx2 (Some (token_Alias (obuf ctx2) (Scanner_pos s1)));
                (s2, ctx4) = progressColumn s1 ctx3 1
            in Return p s2 ctx4)
         else scan_plain s ctx c)
      else if c = CHR ''#'' then
        (let (s1, ctx1) = addBufferedTokenIfExists s ctx;
             (tk, progress, ctx2) = scanComment s1 ctx1;
             ctx3 = addToken ctx2 tk;
             (s2, ctx4) = progressColumn s1 ctx3 progress;
             (s3, ctx5) = progressLine s2 ctx4
         in Return (p + progress) s3 ctx5)
      else if c = singleQuote \<or> c = doubleQuote then
        (let (tk, progress, ctx1) = scanQuote s ctx c;
             ctx2 = addToken ctx1 tk;
             (s1, ctx3) = progressColumn s ctx2 progress
         in Return (p + progress) s1 ctx3)
      else if c = newline then
        (let (s1, ctx1) = scanNewLine s ctx c in Continue s1 ctx1)
      else if c = CHR '' '' then
        (if isSaveIndentMode ctx \<or> (\<not> isAnchor s \<and> \<not> isFirstCharAtLine s) then
           (let ctx1 = addBuf ctx c;
                ctx2 = addOriginBuf ctx1 c;
                (s1, ctx3) = progressColumn s ctx2 1
            in Continue s1 ctx3)
         else if isFirstCharAtLine s then
           (let (s1, ctx1) = progressColumn s ctx 1
            in Continue s1 (addOriginBuf ctx1 c))
         else
           (let (s1, ctx1) = addBufferedTokenIfExists s ctx;
                (s2, ctx2) = progressColumn s1 ctx1 1
            in Return p (s2\<lparr>isAnchor := False\<rparr>) ctx2))
      else scan_plain s ctx c)"

text \<open>The head of the loop body (lines 760 to 775), then the switch.\<close>

definition scan_iter :: "Scanner \<Rightarrow> Context \<Rightarrow> scan_step" where
  "scan_iter s ctx =
     (let p = ctx_nextPos ctx;
          c = currentChar ctx;
          s1 = updateIndent s c
      in if isChangedToIndentStateDown s1 then
           (let (s2, ctx2) = addBufferedTokenIfExists s1 ctx
            in scan_switch s2 (ctx_breakLiteral ctx2) p c)
         else if isLiteral ctx \<or> isFolded ctx \<or> isRawFolded ctx then
           (let (s2, ctx2) = scanLiteral s1 ctx c in Continue s2 ctx2)
         else if isChangedToIndentStateEqual s1 then
           (if length (obuf ctx) > 0 \<and> hd (obuf ctx) \<noteq> newline then
              (let (s2, ctx2) = addBufferedTokenIfExists s1 ctx in scan_switch s2 ctx2 p c)
            else scan_switch s1 ctx p c)
         else scan_switch s1 ctx p c)"

text \<open>
  The loop of \<^verbatim>\<open>scan\<close>; \<open>p\<close> is \<^verbatim>\<open>pos\<close> as the last iteration left it. The fuel
  bounds the iterations; \<^verbatim>\<open>scan\<close> starts with one unit more than the characters of the
  context.
\<close>

fun scan_loop ::
  "nat \<Rightarrow> Scanner \<Rightarrow> Context \<Rightarrow> nat \<Rightarrow> (nat \<times> Scanner \<times> Context) option" where
  "scan_loop 0 s ctx p = None"
| "scan_loop (Suc n) s ctx p =
     (if ctx_next ctx then
        (case scan_iter s ctx of
           Continue s1 ctx1 \<Rightarrow> scan_loop n s1 ctx1 (ctx_nextPos ctx)
         | Return p1 s1 ctx1 \<Rightarrow> Some (p1, s1, ctx1))
      else (let (s1, ctx1) = addBufferedTokenIfExists s ctx in Some (p, s1, ctx1)))"

definition scan :: "Scanner \<Rightarrow> Context \<Rightarrow> (nat \<times> Scanner \<times> Context) option" where
  "scan s ctx = scan_loop (Suc (length (src ctx))) s ctx 0"

datatype ScanResult = EOF | Tokens "token list" Scanner

definition Scan :: "Scanner \<Rightarrow> ScanResult option" where
  "Scan s =
     (if sourcePos s \<ge> sourceSize s then Some EOF
      else (case scan s (newScanContext (drop (sourcePos s) (source s))) of
              None \<Rightarrow> None
            | Some (pos, s1, ctx1) \<Rightarrow>
                Some (Tokens (stokens ctx1) (s1\<lparr>sourcePos := sourcePos s1 + pos\<rparr>))))"

section \<open>Tokenize and ParseBytes\<close>

text \<open>
  Modelled from the spec: \<^verbatim>\<open>lexer.Tokenize\<close>: a scanner is initialised on the source
  and \<^verbatim>\<open>Scan\<close> is called until it reports the end; the tokens of the calls are
  concatenated, and each token's forward link is set to the token after it.
\<close>

fun link :: "token list \<Rightarrow> token list" where
  "link [] = []"
| "link [t] = [t]"
| "link (t # u # ts) = t\<lparr>NextType := Type u\<rparr> # link (u # ts)"

fun tokenize_loop :: "nat \<Rightarrow> Scanner \<Rightarrow> token list \<Rightarrow> token list option" where
  "tokenize_loop 0 s acc = None"
| "tokenize_loop (Suc n) s acc =
     (case Scan s of
        None \<Rightarrow> None
      | Some EOF \<Rightarrow> Some acc
      | Some (Tokens tks s1) \<Rightarrow> tokenize_loop n s1 (acc @ tks))"

definition Tokenize :: "string \<Rightarrow> token list option" where
  "Tokenize text =
     map_option link (tokenize_loop (Suc (length text)) (Init zeroScanner text) [])"

definition ParseBytes :: "nat \<Rightarrow> string \<Rightarrow> nat \<Rightarrow> File outcome option" where
  "ParseBytes n bytes m =
     (case Tokenize bytes of
        None \<Rightarrow> None
      | Some tks \<Rightarrow> wrapf (Parse n tks m) ''failed to parse'')"

section \<open>Faithful positions\<close>



definition ScanResult_tokens :: "ScanResult option \<Rightarrow> token list option" where
  "ScanResult_tokens r = (case r of Some (Tokens tks _) \<Rightarrow> Some tks | _ \<Rightarrow> None)"

section \<open>Example inputs\<close>

text \<open>
  Token streams as the scanner produces them for small sources, used to run the
  theorems below on concrete inputs.
\<close>

definition posAt :: "int \<Rightarrow> int \<Rightarrow> int \<Rightarrow> Position" where
  "posAt l c off = \<lparr>Line = l, Column = c, Offset = off, IndentNum = 0, IndentLevel = 0\<rparr>"

text \<open>The tokens of \<^verbatim>\<open>a:\<close>.\<close>

definition ex_key_colon :: "token list" where
  "ex_key_colon = link [mkToken StringType ''a'' ''a'' (posAt 1 1 1), token_MappingValue (posAt 1 2 2)]"


text \<open>The tokens of the two lines \<^verbatim>\<open>- 1\<close> and \<^verbatim>\<open>- 2\<close>.\<close>

definition ex_two_entries :: "token list" where
  "ex_two_entries =
     link [token_SequenceEntry ''-'' (posAt 1 1 1), mkToken IntegerType ''1'' '' 1'' (posAt 1 3 3),
           token_SequenceEntry ''-'' (posAt 2 1 5), mkToken IntegerType ''2'' '' 2'' (posAt 2 3 7)]"


text \<open>The tokens of \<^verbatim>\<open>{,\<close>.\<close>

definition ex_open_flow :: "token list" where
  "ex_open_flow = link [token_MappingStart ''{'' (posAt 1 1 1), token_CollectEntry '','' (posAt 1 2 2)]"



text \<open>The scanner at the first character of a line, with column 3 and a pin at column 1.\<close>

definition ex_pinned :: Scanner where
  "ex_pinned = (Init zeroScanner [])\<lparr>column := 3, indentNum := 2, prevIndentColumn := 1\<rparr>"

text \<open>The token of \<^verbatim>\<open>a\<close>.\<close>

definition ex_scalar :: "token list" where
  "ex_scalar = link [mkToken StringType ''a'' ''a'' (posAt 1 1 1)]"

section \<open>Progress of the scanner\<close>

text \<open>
  What an iteration of \<^verbatim>\<open>scan\<close> that goes on does to the context (the cursor moves
  forward over the same source), and what every iteration leaves of the scanner (the
  source and the position in it, which only \<^verbatim>\<open>Scan\<close> moves).
\<close>

definition step_advances :: "Context \<Rightarrow> scan_step \<Rightarrow> bool" where
  "step_advances c st =
     (case st of Continue s' c' \<Rightarrow> src c' = src c \<and> sidx c < sidx c' | Return _ _ _ \<Rightarrow> True)"

definition same_source :: "Scanner \<Rightarrow> Scanner \<Rightarrow> bool" where
  "same_source s s' =
     (source s' = source s \<and> sourceSize s' = sourceSize s \<and> sourcePos s' = sourcePos s)"

definition step_keeps :: "Scanner \<Rightarrow> scan_step \<Rightarrow> bool" where
  "step_keeps s st =
     (case st of Continue s' _ \<Rightarrow> same_source s s' | Return _ s' _ \<Rightarrow> same_source s s')"

section \<open>Properties\<close>

subsection \<open>Results and the context\<close>

lemma andThen_Ok_iff:
  "andThen r f = Some (Ok y) \<longleftrightarrow> (\<exists>x. r = Some (Ok x) \<and> f x = Some (Ok y))"
  by (auto simp: andThen_def split: option.splits outcome.splits)

lemma wrapf_Ok_iff [simp]: "wrapf r msg = Some (Ok x) \<longleftrightarrow> r = Some (Ok x)"
  by (auto simp: wrapf_def split: option.splits outcome.splits)

lemma tokenAt_progress [simp]: "tokenAt (progress ctx k) i = tokenAt ctx i"
  by (simp add: tokenAt_def progress_def)

lemma idx_progress [simp]: "idx (progress ctx k) = idx ctx + k"
  by (simp add: progress_def)

lemma tokens_progress [simp]: "tokens (progress ctx k) = tokens ctx"
  by (simp add: progress_def)

lemma tokenAt_None_mono: "tokenAt ctx i = None \<Longrightarrow> i \<le> j \<Longrightarrow> tokenAt ctx j = None"
  by (auto simp: tokenAt_def split: if_splits)

subsection \<open>The documents of a file\<close>

text \<open>The loop of \<^verbatim>\<open>parse\<close> only appends to the documents it has.\<close>

lemma parse_loop_docs:
  "parse_loop n ctx docs = Some (Ok f) \<Longrightarrow> \<exists>ds. Docs f = docs @ ds"
proof (induction n arbitrary: ctx docs)
  case 0
  then show ?case by simp
next
  case (Suc n)
  then show ?case
    by (auto simp: andThen_Ok_iff Let_def split: if_splits option.splits dest!: Suc.IH)
qed

lemma Tokenize_empty: "Tokenize [] = Some []"
  by (simp add: Tokenize_def Scan_def Init_def zeroScanner_def)

text \<open>
  C1, as the code has it. The claim says that the empty input yields a file with one
  document whose body is Null, and that every file has at least one document. On the
  empty input \<^verbatim>\<open>Scan\<close> reports the end at once, the loop of \<^verbatim>\<open>parse\<close> is not
  entered, and the file has no document: nothing in the parser makes a Null document.
  What holds: with any fuel the empty input parses to the file without documents; and
  a file has at least one document as soon as the first token of the stream parses to a
  node, since the loop appends one document for it and never removes one.
\<close>

theorem parse_documents:
  "ParseBytes (Suc n) [] m = Some (Ok \<lparr>Docs = []\<rparr>)
   \<and> (next (newContext tks m)
        \<and> parseToken k (newContext tks m) (currentToken (newContext tks m))
            = Some (Ok (Some nd, ctx1))
        \<and> parse (Suc k) tks m = Some (Ok f)
      \<longrightarrow> Docs f \<noteq> [])"
proof (intro conjI impI)
  show "ParseBytes (Suc n) [] m = Some (Ok \<lparr>Docs = []\<rparr>)"
    by (simp add: ParseBytes_def Tokenize_empty Parse_def parse_def newContext_def next_def
                  wrapf_def)
next
  assume a: "next (newContext tks m)
        \<and> parseToken k (newContext tks m) (currentToken (newContext tks m))
            = Some (Ok (Some nd, ctx1))
        \<and> parse (Suc k) tks m = Some (Ok f)"
  then have "parse_loop k (progress ctx1 1) ([] @ [toDocument nd]) = Some (Ok f)"
    by (auto simp: parse_def andThen_def wrapf_def Let_def)
  then show "Docs f \<noteq> []"
    by (auto dest!: parse_loop_docs)
qed

text \<open>
  The source \<^verbatim>\<open>a\<close>: its one token parses to a String node, and the file has the
  one document that wraps it.
\<close>

theorem parse_documents_witness:
  "parse (Suc 1) ex_scalar 0
     = Some (Ok \<lparr>Docs = [Document None None (Some (StringNode (ex_scalar ! 0)))]\<rparr>)
   \<and> Docs \<lparr>Docs = [Document None None (Some (StringNode (ex_scalar ! 0)))]\<rparr> \<noteq> []"
proof -
  have h1: "next (newContext ex_scalar 0)"
    by code_simp
  have h2: "parseToken 1 (newContext ex_scalar 0) (currentToken (newContext ex_scalar 0))
              = Some (Ok (Some (StringNode (ex_scalar ! 0)), newContext ex_scalar 0))"
    by code_simp
  have h3: "parse (Suc 1) ex_scalar 0
              = Some (Ok \<lparr>Docs = [Document None None (Some (StringNode (ex_scalar ! 0)))]\<rparr>)"
    by code_simp
  show ?thesis
    using h1 h2 h3
      parse_documents [of 0 0 ex_scalar 1 "StringNode (ex_scalar ! 0)" "newContext ex_scalar 0"
        "\<lparr>Docs = [Document None None (Some (StringNode (ex_scalar ! 0)))]\<rparr>"]
    by blast
qed

text \<open>C1 fails on the empty input: the file returned has no document at all.\<close>

theorem ParseBytes_empty_no_document:
  "ParseBytes 1 [] 0 = Some (Ok \<lparr>Docs = []\<rparr>)"
  by (simp add: ParseBytes_def Tokenize_empty Parse_def parse_def newContext_def next_def
                wrapf_def)

subsection \<open>The literal header\<close>

text \<open>
  C2, a defect of the code. On the source \<^verbatim>\<open>|x\<close> followed by a newline the tail of
  the header is \<^verbatim>\<open>x\<close>, which is no option. \<^verbatim>\<open>scanLiteralHeader\<close> returns the error
  \<^verbatim>\<open>invalid literal header\<close>, but \<^verbatim>\<open>scan\<close> drops it (the source notes
  \<^verbatim>\<open>TODO: returns syntax error object\<close>) and \<^verbatim>\<open>Scan\<close> returns its tokens, none here,
  with no error: nothing is reported to the caller.
\<close>

theorem invalid_literal_header_not_reported:
  "fst (snd (scanLiteralHeader (Init zeroScanner (''|x'' @ [newline]))
               (newScanContext (''|x'' @ [newline])))) = Some ''invalid literal header''
   \<and> ScanResult_tokens (Scan (Init zeroScanner (''|x'' @ [newline]))) = Some []"
  by code_simp

subsection \<open>Flow containers that are never closed\<close>

text \<open>
  A flow mapping or sequence whose remaining tokens are all \<^verbatim>\<open>,\<close> runs to the end of
  the stream and returns its node, without an end token.
\<close>

lemma parseMapping_loop_collect:
  assumes "\<forall>i. idx ctx \<le> i \<and> i < length (tokens ctx) \<longrightarrow>
             Type (tokens ctx ! i) = CollectEntryType"
    and "length (tokens ctx) - idx ctx < n"
  shows "\<exists>ctx'. parseMapping_loop pt n ctx start vals =
                  Some (Ok (Some (MappingNode start None True vals), ctx'))
               \<and> tokens ctx' = tokens ctx \<and> length (tokens ctx) \<le> idx ctx'"
  using assms
proof (induction n arbitrary: ctx)
  case 0
  then show ?case by simp
next
  case (Suc n)
  show ?case
  proof (cases "next ctx")
    case False
    then show ?thesis by (auto simp: next_def)
  next
    case True
    then have lt: "idx ctx < length (tokens ctx)" by (simp add: next_def)
    with Suc.prems(1) have ty: "Type (tokens ctx ! idx ctx) = CollectEntryType" by simp
    have "\<exists>ctx'. parseMapping_loop pt n (progress ctx 1) start vals =
                  Some (Ok (Some (MappingNode start None True vals), ctx'))
               \<and> tokens ctx' = tokens (progress ctx 1)
               \<and> length (tokens (progress ctx 1)) \<le> idx ctx'"
      using Suc.prems lt by (intro Suc.IH) auto
    then show ?thesis
      using True lt ty by (auto simp: currentToken_def tokenAt_def)
  qed
qed

lemma parseSequence_loop_collect:
  assumes "\<forall>i. idx ctx \<le> i \<and> i < length (tokens ctx) \<longrightarrow>
             Type (tokens ctx ! i) = CollectEntryType"
    and "length (tokens ctx) - idx ctx < n"
  shows "\<exists>ctx'. parseSequence_loop pt n ctx start vals =
                  Some (Ok (Some (SequenceNode start None True vals), ctx'))
               \<and> tokens ctx' = tokens ctx \<and> length (tokens ctx) \<le> idx ctx'"
  using assms
proof (induction n arbitrary: ctx)
  case 0
  then show ?case by simp
next
  case (Suc n)
  show ?case
  proof (cases "next ctx")
    case False
    then show ?thesis by (auto simp: next_def)
  next
    case True
    then have lt: "idx ctx < length (tokens ctx)" by (simp add: next_def)
    with Suc.prems(1) have ty: "Type (tokens ctx ! idx ctx) = CollectEntryType" by simp
    have "\<exists>ctx'. parseSequence_loop pt n (progress ctx 1) start vals =
                  Some (Ok (Some (SequenceNode start None True vals), ctx'))
               \<and> tokens ctx' = tokens (progress ctx 1)
               \<and> length (tokens (progress ctx 1)) \<le> idx ctx'"
      using Suc.prems lt by (intro Suc.IH) auto
    then show ?thesis
      using True lt ty by (auto simp: currentToken_def tokenAt_def)
  qed
qed

lemma parseScalarValue_start:
  "Type st = MappingStartType \<or> Type st = SequenceStartType \<Longrightarrow> parseScalarValue st = None"
  by (auto simp: parseScalarValue_def parseStringValue_def)

text \<open>
  C3, as the code has it. The claim says that a \<^verbatim>\<open>{\<close> or \<^verbatim>\<open>[\<close> that is never closed
  makes \<^verbatim>\<open>parse\<close> fail with a syntax error. The loops of \<^verbatim>\<open>parseMapping\<close> and
  \<^verbatim>\<open>parseSequence\<close> end when the tokens do and return the node they have; the parser
  has no error for an unbalanced flow container. What holds: for a stream that is a
  \<^verbatim>\<open>{\<close> or \<^verbatim>\<open>[\<close> token (not followed by a colon) and then only \<^verbatim>\<open>,\<close> tokens, with
  fuel of at least the number of tokens plus two, \<^verbatim>\<open>parse\<close> returns the file whose one
  document holds the flow node with no end token and no values.
\<close>

theorem unclosed_flow_container_parses:
  assumes st: "Type st = MappingStartType \<or> Type st = SequenceStartType"
    and nx: "NextType st \<noteq> MappingValueType"
    and cs: "\<forall>c \<in> set cs. Type c = CollectEntryType"
    and fuel: "length cs + 3 \<le> n"
  shows "parse n (st # cs) m =
           Some (Ok \<lparr>Docs = [Document None None
                   (Some (if Type st = MappingStartType
                          then MappingNode (Some st) None True []
                          else SequenceNode (Some st) None True []))]\<rparr>)"
proof -
  from fuel obtain j where j: "n = (length cs + 3) + j"
    using le_Suc_ex by blast
  define k where "k = length cs + j"
  have n: "n = Suc (Suc (Suc k))" and k: "length cs \<le> k"
    using j by (simp_all add: k_def)
  define ctx0 where "ctx0 = newContext (st # cs) m"
  have tk0: "tokens ctx0 = st # cs"
    using st cs by (auto simp: ctx0_def newContext_def filter_id_conv)
  have i0: "idx ctx0 = 0" by (simp add: ctx0_def newContext_def)
  have cur: "currentToken ctx0 = Some st" "next ctx0"
    by (simp_all add: currentToken_def tokenAt_def next_def tk0 i0)
  have coll: "\<forall>i. idx (progress ctx0 1) \<le> i \<and> i < length (tokens (progress ctx0 1)) \<longrightarrow>
             Type (tokens (progress ctx0 1) ! i) = CollectEntryType"
    using cs by (auto simp: tk0 i0 nth_Cons split: nat.splits)
  have len: "length (tokens (progress ctx0 1)) - idx (progress ctx0 1) < Suc k"
    using k by (simp add: tk0 i0)
  show ?thesis
  proof (cases "Type st = MappingStartType")
    case True
    from parseMapping_loop_collect[OF coll len, of "parseToken (Suc k)" "Some st" "[]"]
    obtain ctx' where
      r: "parseMapping_loop (parseToken (Suc k)) (Suc k) (progress ctx0 1) (Some st) [] =
            Some (Ok (Some (MappingNode (Some st) None True []), ctx'))"
      and e: "length (tokens ctx') \<le> idx ctx'" by auto
    have pt: "parseToken (Suc (Suc k)) ctx0 (Some st) =
                Some (Ok (Some (MappingNode (Some st) None True []), ctx'))"
      using True nx r cur parseScalarValue_start[OF st]
      by (simp add: parseToken_body_def parseMapping_def)
    have nn: "\<not> next (progress ctx' 1)" using e by (simp add: next_def)
    show ?thesis
      using pt cur nn True
      by (simp add: n parse_def ctx0_def[symmetric] andThen_def wrapf_def toDocument_def)
  next
    case False
    with st have sq: "Type st = SequenceStartType" by simp
    from parseSequence_loop_collect[OF coll len, of "parseToken (Suc k)" "Some st" "[]"]
    obtain ctx' where
      r: "parseSequence_loop (parseToken (Suc k)) (Suc k) (progress ctx0 1) (Some st) [] =
            Some (Ok (Some (SequenceNode (Some st) None True []), ctx'))"
      and e: "length (tokens ctx') \<le> idx ctx'" by auto
    have pt: "parseToken (Suc (Suc k)) ctx0 (Some st) =
                Some (Ok (Some (SequenceNode (Some st) None True []), ctx'))"
      using sq nx r cur parseScalarValue_start[OF st]
      by (simp add: parseToken_body_def parseSequence_def)
    have nn: "\<not> next (progress ctx' 1)" using e by (simp add: next_def)
    show ?thesis
      using pt cur nn sq
      by (simp add: n parse_def ctx0_def[symmetric] andThen_def wrapf_def toDocument_def)
  qed
qed

text \<open>The tokens of \<^verbatim>\<open>{,\<close>: the mapping is never closed, and the file is returned.\<close>

theorem unclosed_flow_container_parses_witness:
  "parse 4 (ex_open_flow ! 0 # [ex_open_flow ! 1]) 0 =
     Some (Ok \<lparr>Docs = [Document None None
             (Some (if Type (ex_open_flow ! 0) = MappingStartType
                    then MappingNode (Some (ex_open_flow ! 0)) None True []
                    else SequenceNode (Some (ex_open_flow ! 0)) None True []))]\<rparr>)"
proof -
  have h1: "Type (ex_open_flow ! 0) = MappingStartType
            \<or> Type (ex_open_flow ! 0) = SequenceStartType"
    by code_simp
  have h2: "NextType (ex_open_flow ! 0) \<noteq> MappingValueType"
    by code_simp
  have h3: "\<forall>c \<in> set [ex_open_flow ! 1]. Type c = CollectEntryType"
    by code_simp
  have h4: "length [ex_open_flow ! 1] + 3 \<le> 4"
    by simp
  show ?thesis
    by (rule unclosed_flow_container_parses [OF h1 h2 h3 h4])
qed

text \<open>
  C3 fails on the stream of the single token \<^verbatim>\<open>{\<close>: \<^verbatim>\<open>Parse\<close> returns a file, not
  an error.
\<close>

theorem unclosed_flow_mapping_no_error:
  "Parse 3 [token_MappingStart ''{'' (posAt 1 1 1)] 0 =
     Some (Ok \<lparr>Docs = [Document None None
             (Some (MappingNode (Some (token_MappingStart ''{'' (posAt 1 1 1))) None True []))]\<rparr>)"
  by code_simp

subsection \<open>Offsets and original lexemes\<close>




subsection \<open>Block mapping groups\<close>


lemma parseMapKey_cases:
  "parseMapKey ktk = Some key \<Longrightarrow> isScalarNode key \<and> GetToken key = Some (Some ktk)"
  by (auto simp: parseMapKey_def parseStringValue_def split: if_splits option.splits)



text \<open>
  C6. When the current token is a valid key, the token after it (the colon) is the last
  of the stream, \<^verbatim>\<open>parseMappingValue\<close> returns, with any fuel of at least one for its
  loop, the pair whose value is a Null node made for the occasion, and the position of
  that node's token is the position of the colon.
\<close>

theorem parseMappingValue_null_value:
  assumes key: "currentToken ctx = Some ktk" "parseMapKey ktk = Some key"
    and valid: "validateMapKey ktk = None"
    and colon: "nextToken ctx = Some tk"
    and last: "afterNextToken ctx = None"
  shows "parseMappingValue pt (Suc n) ctx =
           Some (Ok (Some (MappingValue
                  (MappingValueNode (Some tk) key (NullNode (token_New_null (Position tk))))),
                 progress (progress ctx 1) 1))
         \<and> Position (token_New_null (Position tk)) = Position tk"
proof -
  from key(2) have k: "isScalarNode key" "GetToken key = Some (Some ktk)"
    using parseMapKey_cases by blast+
  have c1: "currentToken (progress ctx 1) = Some tk"
    using colon by (simp add: currentToken_def nextToken_def)
  have c2: "currentToken (progress (progress ctx 1) 1) = None"
    using last by (simp add: currentToken_def afterNextToken_def add.assoc)
  have v: "parseMappingValue_value pt ctx =
             Some (Ok ((Some tk, Some (NullNode (token_New_null (Position tk)))),
                       progress (progress ctx 1) 1))"
    using c1 c2 by (simp add: parseMappingValue_value_def Let_def)
  have an: "afterNextToken (progress (progress ctx 1) 1) = None"
    using tokenAt_None_mono[of ctx "idx ctx + 2" "idx ctx + 1 + 1 + 2"] last
    by (simp add: afterNextToken_def)
  have g: "parseMappingValue_group pt (Suc n) (progress (progress ctx 1) 1) key ktk (Some tk)
             (Some (NullNode (token_New_null (Position tk)))) =
           Some (Ok (Some (MappingValue
                  (MappingValueNode (Some tk) key (NullNode (token_New_null (Position tk))))),
                 progress (progress ctx 1) 1))"
    using an by (simp add: parseMappingValue_group_def Let_def andThen_def)
  show ?thesis
    using v g by (simp add: parseMappingValue_def key k valid andThen_def token_New_null_def)
qed

text \<open>The tokens of \<^verbatim>\<open>a:\<close>: the pair of \<^verbatim>\<open>a\<close> and a Null placed at the colon.\<close>

theorem parseMappingValue_null_value_witness:
  "parseMappingValue (parseToken 0) (Suc 0) (newContext ex_key_colon 0) =
     Some (Ok (Some (MappingValue
            (MappingValueNode (Some (ex_key_colon ! 1)) (StringNode (ex_key_colon ! 0))
               (NullNode (token_New_null (Position (ex_key_colon ! 1)))))),
           progress (progress (newContext ex_key_colon 0) 1) 1))
   \<and> Position (token_New_null (Position (ex_key_colon ! 1))) = Position (ex_key_colon ! 1)"
proof -
  have h1: "currentToken (newContext ex_key_colon 0) = Some (ex_key_colon ! 0)"
    by code_simp
  have h2: "parseMapKey (ex_key_colon ! 0) = Some (StringNode (ex_key_colon ! 0))"
    by code_simp
  have h3: "validateMapKey (ex_key_colon ! 0) = None"
    by code_simp
  have h4: "nextToken (newContext ex_key_colon 0) = Some (ex_key_colon ! 1)"
    by code_simp
  have h5: "afterNextToken (newContext ex_key_colon 0) = None"
    by code_simp
  show ?thesis
    by (rule parseMappingValue_null_value [OF h1 h2 h3 h4 h5])
qed

subsection \<open>Block sequences\<close>

text \<open>
  C7. \<^verbatim>\<open>parseSequenceEntry\<close> starts its loop with the current token, its column and
  no value. In an iteration whose token is a \<^verbatim>\<open>-\<close> and whose value parses, the loop
  skips the \<^verbatim>\<open>-\<close>, appends the one value, and goes on exactly when the next token is
  a \<^verbatim>\<open>-\<close> at the column of the first; at the end of the stream, at another token, or at
  a \<^verbatim>\<open>-\<close> of another column it returns the sequence.
\<close>

theorem parseSequenceEntry_loop_step:
  assumes dash: "Type tk = SequenceEntryType"
    and val: "pt (progress ctx 1) (currentToken (progress ctx 1)) = Some (Ok (val, ctx2))"
  shows "parseSequenceEntry_loop pt (Suc n) ctx start c tk vals =
           (case nextToken ctx2 of
              None \<Rightarrow> Some (Ok (Some (SequenceNode start None False (vals @ [val])), ctx2))
            | Some ntk \<Rightarrow>
                if Type ntk = SequenceEntryType \<and> Column (Position ntk) = c
                then parseSequenceEntry_loop pt n (progress ctx2 1) start c ntk (vals @ [val])
                else Some (Ok (Some (SequenceNode start None False (vals @ [val])), ctx2)))
         \<and> (currentToken ctx = Some tk \<longrightarrow>
              parseSequenceEntry pt (Suc n) ctx =
                parseSequenceEntry_loop pt (Suc n) ctx (Some tk) (Column (Position tk)) tk [])"
  using assms
  by (simp add: parseSequenceEntry_def Let_def andThen_def wrapf_def split: option.splits)

text \<open>
  The tokens of \<^verbatim>\<open>- 1\<close> and \<^verbatim>\<open>- 2\<close>: after the first value the next token is a
  \<^verbatim>\<open>-\<close> at column 1, and the loop goes on with it.
\<close>

theorem parseSequenceEntry_loop_step_witness:
  "parseSequenceEntry_loop (parseToken 1) (Suc 1) (newContext ex_two_entries 0)
     (Some (ex_two_entries ! 0)) 1 (ex_two_entries ! 0) [] =
   parseSequenceEntry_loop (parseToken 1) 1
     (progress (progress (newContext ex_two_entries 0) 1) 1)
     (Some (ex_two_entries ! 0)) 1 (ex_two_entries ! 2) [Some (IntegerNode (ex_two_entries ! 1))]
   \<and> parseSequenceEntry (parseToken 1) (Suc 1) (newContext ex_two_entries 0) =
       Some (Ok (Some (SequenceNode (Some (ex_two_entries ! 0)) None False
                   [Some (IntegerNode (ex_two_entries ! 1)),
                    Some (IntegerNode (ex_two_entries ! 3))]),
                 (newContext ex_two_entries 0)\<lparr>idx := 3\<rparr>))"
proof -
  have h1: "Type (ex_two_entries ! 0) = SequenceEntryType"
    by code_simp
  have h2: "parseToken 1 (progress (newContext ex_two_entries 0) 1)
              (currentToken (progress (newContext ex_two_entries 0) 1)) =
            Some (Ok (Some (IntegerNode (ex_two_entries ! 1)),
                      progress (newContext ex_two_entries 0) 1))"
    by code_simp
  have h3: "nextToken (progress (newContext ex_two_entries 0) 1) = Some (ex_two_entries ! 2)"
    by code_simp
  have h4: "Type (ex_two_entries ! 2) = SequenceEntryType
            \<and> Column (Position (ex_two_entries ! 2)) = 1"
    by code_simp
  have h5: "currentToken (newContext ex_two_entries 0) = Some (ex_two_entries ! 0)"
    by code_simp
  have h6: "Column (Position (ex_two_entries ! 0)) = 1"
    by code_simp
  have h7: "parseSequenceEntry_loop (parseToken 1) 1
              (progress (progress (newContext ex_two_entries 0) 1) 1)
              (Some (ex_two_entries ! 0)) 1 (ex_two_entries ! 2)
              [Some (IntegerNode (ex_two_entries ! 1))] =
            Some (Ok (Some (SequenceNode (Some (ex_two_entries ! 0)) None False
                   [Some (IntegerNode (ex_two_entries ! 1)),
                    Some (IntegerNode (ex_two_entries ! 3))]),
                 (newContext ex_two_entries 0)\<lparr>idx := 3\<rparr>))"
    by code_simp
  show ?thesis
    using parseSequenceEntry_loop_step [where pt = "parseToken 1", OF h1 h2,
        of 1 "Some (ex_two_entries ! 0)" 1 "[]"]
      h3 h4 h5 h6 h7
    by simp
qed

subsection \<open>Flow mappings\<close>



text \<open>A MappingValue element is appended, and the loop goes on after it.\<close>

lemma parseMapping_loop_appends_pair:
  assumes "next ctx" "currentToken ctx = Some tk"
    and "Type tk \<noteq> MappingEndType" "Type tk \<noteq> CollectEntryType"
    and "pt ctx (Some tk) = Some (Ok (Some (MappingValue mv), ctx1))"
  shows "parseMapping_loop pt (Suc n) ctx start vals =
           parseMapping_loop pt n (progress ctx1 1) start (vals @ [mv])"
  using assms by (simp add: andThen_def wrapf_def)

text \<open>An error of \<^verbatim>\<open>parseToken\<close> at the top level is the error of \<^verbatim>\<open>parse\<close>, wrapped.\<close>

lemma parse_loop_error:
  assumes "next ctx" "parseToken n ctx (currentToken ctx) = Some (Err e)"
  shows "parse_loop (Suc n) ctx docs = Some (Err (Wrapf e ''failed to parse''))"
  using assms by (simp add: andThen_def wrapf_def)

subsection \<open>Nil tokens\<close>

text \<open>
  C9, a defect of the code. On the source \<^verbatim>\<open>%YAML\<close> the tokens are a Directive and
  a String. \<^verbatim>\<open>parseDirective\<close> parses the value, progresses past the last token and
  reads \<^verbatim>\<open>ctx.currentToken().Type\<close> of a nil token: the call panics, where
  \<^verbatim>\<open>parseAnchor\<close>, \<^verbatim>\<open>parseAlias\<close> and \<^verbatim>\<open>parseMappingValue\<close> test for nil first.
\<close>

theorem parseDirective_nil_dereference:
  "ParseBytes 3 ''%YAML'' 0 = Some Panic"
  by code_simp

subsection \<open>The pinned column\<close>

text \<open>
  C10. \<^verbatim>\<open>updateIndent\<close> compares indents only at the first character of a line that
  is not a space. There it sets the state from the pinned column when one is set
  (Up, Equal or Down as the pin is left of, at, or right of the column), from the
  indent counts otherwise, and always resets the pin to 0. Everywhere else it leaves the
  pin as it is and does not use it. So a pin decides one comparison at most.
\<close>

theorem updateIndent_pin:
  "prevIndentColumn (updateIndent s c) =
     (if isFirstCharAtLine s \<and> c \<noteq> CHR '' '' then 0 else prevIndentColumn s)
   \<and> indentState (updateIndent s c) =
       (if isFirstCharAtLine s \<and> c \<noteq> CHR '' '' then
          (if 0 < prevIndentColumn s
           then (if prevIndentColumn s < column s then IndentStateUp
                 else if prevIndentColumn s = column s then IndentStateEqual
                 else IndentStateDown)
           else (if prevIndentNum s < indentNum s then IndentStateUp
                 else if prevIndentNum s = indentNum s then IndentStateEqual
                 else IndentStateDown))
        else if isFirstCharAtLine s then indentState s
        else IndentStateKeep)"
  by (auto simp add: updateIndent_def Let_def)

text \<open>A pin at column 1 and a first character at column 3: the state is Up, the pin gone.\<close>

theorem updateIndent_pin_witness:
  "prevIndentColumn (updateIndent ex_pinned (CHR ''b'')) = 0
   \<and> indentState (updateIndent ex_pinned (CHR ''b'')) = IndentStateUp"
  using updateIndent_pin [of ex_pinned "CHR ''b''"]
  by (simp add: ex_pinned_def Init_def zeroScanner_def)

text \<open>The pin is set where \<^verbatim>\<open>scan\<close> emits the merge key, at the current column.\<close>

lemma scan_switch_merge_key_pins:
  assumes "repeatNum ctx (CHR ''<'') = 2"
    and "scan_switch s ctx p (CHR ''<'') = Return p' s' ctx'"
  shows "prevIndentColumn s' = column s"
  using assms by (auto simp: scan_switch_def progressColumn_def Let_def)

subsection \<open>The scanner returns\<close>

text \<open>
  Every iteration of \<^verbatim>\<open>scan\<close> that goes on moves the cursor forward, so the loop
  ends within the fuel \<^verbatim>\<open>scan\<close> gives it; every \<^verbatim>\<open>Scan\<close> that returns tokens
  moves the position in the source forward, so \<open>Tokenize\<close> ends within its fuel.
\<close>

lemma ctx_ops_src [simp]:
  "src (addBuf c r) = src c" "src (addOriginBuf c r) = src c" "src (addToken c tk) = src c"
  "src (resetBuffer c) = src c" "src (ctx_breakLiteral c) = src c"
  "src (ctx_progress c k) = src c"
  by (auto simp: addBuf_def addOriginBuf_def addToken_def resetBuffer_def
        ctx_breakLiteral_def ctx_progress_def split: option.splits)

lemma ctx_ops_sidx [simp]:
  "sidx (addBuf c r) = sidx c" "sidx (addOriginBuf c r) = sidx c"
  "sidx (addToken c tk) = sidx c" "sidx (resetBuffer c) = sidx c"
  "sidx (ctx_breakLiteral c) = sidx c" "sidx (ctx_progress c k) = sidx c + k"
  by (auto simp: addBuf_def addOriginBuf_def addToken_def resetBuffer_def
        ctx_breakLiteral_def ctx_progress_def split: option.splits)

lemma ctx_bufferedToken_keeps [simp]:
  "src (snd (ctx_bufferedToken c p)) = src c" "sidx (snd (ctx_bufferedToken c p)) = sidx c"
  by (auto simp: ctx_bufferedToken_def Let_def)

lemma Scanner_bufferedToken_keeps [simp]:
  "src (snd (snd (Scanner_bufferedToken s c))) = src c"
  "sidx (snd (snd (Scanner_bufferedToken s c))) = sidx c"
  by (auto simp: Scanner_bufferedToken_def Let_def case_prod_beta split: option.splits)

lemma addBufferedTokenIfExists_keeps [simp]:
  "src (snd (addBufferedTokenIfExists s c)) = src c"
  "sidx (snd (addBufferedTokenIfExists s c)) = sidx c"
  by (auto simp: addBufferedTokenIfExists_def case_prod_beta)

lemma progressColumn_advances [simp]:
  "src (snd (progressColumn s c k)) = src c" "sidx (snd (progressColumn s c k)) = sidx c + k"
  by (auto simp: progressColumn_def)

lemma progressLine_advances [simp]:
  "src (snd (progressLine s c)) = src c" "sidx (snd (progressLine s c)) = sidx c + 1"
  by (auto simp: progressLine_def)

lemma scanLiteral_advances [simp]:
  "src (snd (scanLiteral s c ch)) = src c" "sidx (snd (scanLiteral s c ch)) = sidx c + 1"
  by (auto simp: scanLiteral_def Let_def case_prod_beta)

lemma scanNewLine_advances [simp]:
  "src (snd (scanNewLine s c ch)) = src c" "sidx (snd (scanNewLine s c ch)) = sidx c + 1"
  by (auto simp: scanNewLine_def Let_def case_prod_beta)

lemma scanLiteralHeader_loop_keeps [simp]:
  "src (snd (snd (scanLiteralHeader_loop s c h i cs p))) = src c"
  "sidx (snd (snd (scanLiteralHeader_loop s c h i cs p))) = sidx c"
  by (induction s c h i cs p rule: scanLiteralHeader_loop.induct; simp add: Let_def)+

lemma scanLiteralHeader_advances [simp]:
  "src (snd (snd (scanLiteralHeader s c))) = src c"
  "sidx (snd (snd (scanLiteralHeader s c))) = sidx c + 1"
  by (simp_all add: scanLiteralHeader_def Let_def)

lemma step_advances_simps [simp]:
  "step_advances c (Continue s' c') = (src c' = src c \<and> sidx c < sidx c')"
  "step_advances c (Return p s' c')"
  by (simp_all add: step_advances_def)

lemma scan_plain_advances [simp]:
  "src c0 = src c \<Longrightarrow> sidx c0 = sidx c \<Longrightarrow> step_advances c (scan_plain s c0 ch)"
  by (simp add: scan_plain_def Let_def case_prod_beta)

lemma scan_switch_advances:
  "src c0 = src c \<Longrightarrow> sidx c0 = sidx c \<Longrightarrow> step_advances c (scan_switch s c0 p ch)"
  by (simp add: scan_switch_def Let_def case_prod_beta split: option.split)

lemma scan_iter_advances: "step_advances c (scan_iter s c)"
  by (simp add: scan_iter_def Let_def case_prod_beta scan_switch_advances)

lemma scan_loop_returns:
  "length (src c) - sidx c < n \<Longrightarrow> \<exists>r. scan_loop n s c p = Some r"
proof (induction n arbitrary: s c p)
  case 0
  then show ?case by simp
next
  case (Suc n)
  show ?case
  proof (cases "ctx_next c")
    case False
    then show ?thesis by (simp split: prod.splits)
  next
    case True
    show ?thesis
    proof (cases "scan_iter s c")
      case (Return p1 s1 c1)
      with True show ?thesis by simp
    next
      case (Continue s1 c1)
      with scan_iter_advances[of c s] True Suc.prems
      have "length (src c1) - sidx c1 < n" by (auto simp: ctx_next_def)
      from Suc.IH[OF this] Continue True show ?thesis by simp
    qed
  qed
qed

lemma scan_returns: "sidx c = 0 \<Longrightarrow> \<exists>r. scan s c = Some r"
  unfolding scan_def by (rule scan_loop_returns) simp

lemma scan_switch_pos:
  "scan_switch s c p ch = Return q s' c' \<Longrightarrow> p \<le> q"
  by (simp add: scan_switch_def scan_plain_def Let_def case_prod_beta
           split: if_splits option.splits)

lemma scan_iter_pos:
  "scan_iter s c = Return q s' c' \<Longrightarrow> 1 \<le> q"
  by (auto simp: scan_iter_def Let_def case_prod_beta ctx_nextPos_def
           split: if_splits dest!: scan_switch_pos)

lemma scan_loop_pos:
  "scan_loop n s c p = Some (q, s', c') \<Longrightarrow> ctx_next c \<or> 1 \<le> p \<Longrightarrow> 1 \<le> q"
proof (induction n arbitrary: s c p)
  case 0
  then show ?case by simp
next
  case (Suc n)
  show ?case
  proof (cases "ctx_next c")
    case False
    with Suc.prems show ?thesis by (auto split: prod.splits)
  next
    case True
    show ?thesis
    proof (cases "scan_iter s c")
      case (Return p1 s1 c1)
      with True Suc.prems scan_iter_pos show ?thesis by auto
    next
      case (Continue s1 c1)
      with True Suc.prems have "scan_loop n s1 c1 (ctx_nextPos c) = Some (q, s', c')" by simp
      then show ?thesis by (rule Suc.IH) (simp add: ctx_nextPos_def)
    qed
  qed
qed

lemma same_source_refl [simp]: "same_source s s"
  by (simp add: same_source_def)

lemma same_source_upd [simp]:
  "same_source s (s'\<lparr>isStartedFlowMap := b\<rparr>) = same_source s s'"
  "same_source s (s'\<lparr>isStartedFlowSequence := b\<rparr>) = same_source s s'"
  "same_source s (s'\<lparr>isAnchor := b\<rparr>) = same_source s s'"
  "same_source s (s'\<lparr>prevIndentColumn := k\<rparr>) = same_source s s'"
  "same_source s (s'\<lparr>savedPos := sp\<rparr>) = same_source s s'"
  "same_source s (updateIndent s' ch) = same_source s s'"
  "same_source s (fst (progressColumn s' c n)) = same_source s s'"
  "same_source s (fst (progressLine s' c)) = same_source s s'"
  by (auto simp: same_source_def updateIndent_def Let_def progressColumn_def progressLine_def)

lemma same_source_bufferedToken [simp]:
  "same_source s (fst (snd (Scanner_bufferedToken s' c))) = same_source s s'"
  by (auto simp: Scanner_bufferedToken_def Let_def case_prod_beta split: option.splits)

lemma same_source_addBuffered [simp]:
  "same_source s (fst (addBufferedTokenIfExists s' c)) = same_source s s'"
  by (simp add: addBufferedTokenIfExists_def case_prod_beta)

lemma same_source_scanLiteral [simp]:
  "same_source s (fst (scanLiteral s' c ch)) = same_source s s'"
  by (simp add: scanLiteral_def Let_def case_prod_beta)

lemma same_source_scanNewLine [simp]:
  "same_source s (fst (scanNewLine s' c ch)) = same_source s s'"
  by (simp add: scanNewLine_def Let_def case_prod_beta)

lemma step_keeps_simps [simp]:
  "step_keeps s (Continue s' c') = same_source s s'"
  "step_keeps s (Return p s' c') = same_source s s'"
  by (simp_all add: step_keeps_def)

lemma scan_switch_keeps:
  "same_source s s0 \<Longrightarrow> step_keeps s (scan_switch s0 c p ch)"
  by (simp add: scan_switch_def scan_plain_def Let_def case_prod_beta split: option.split)

lemma scan_iter_keeps: "step_keeps s (scan_iter s c)"
  by (simp add: scan_iter_def Let_def case_prod_beta scan_switch_keeps)

lemma same_source_trans: "same_source a b \<Longrightarrow> same_source b c \<Longrightarrow> same_source a c"
  by (simp add: same_source_def)

lemma scan_loop_keeps:
  "scan_loop n s c p = Some (q, s', c') \<Longrightarrow> same_source s s'"
proof (induction n arbitrary: s c p)
  case 0
  then show ?case by simp
next
  case (Suc n)
  show ?case
  proof (cases "ctx_next c")
    case False
    with Suc.prems have "s' = fst (addBufferedTokenIfExists s c)"
      by (auto split: prod.splits)
    then show ?thesis by simp
  next
    case True
    show ?thesis
    proof (cases "scan_iter s c")
      case (Return p1 s1 c1)
      with True Suc.prems scan_iter_keeps[of s c] show ?thesis by auto
    next
      case (Continue s1 c1)
      with True Suc.prems have "scan_loop n s1 c1 (ctx_nextPos c) = Some (q, s', c')" by simp
      from Suc.IH[OF this] Continue scan_iter_keeps[of s c] show ?thesis
        by (auto intro: same_source_trans)
    qed
  qed
qed

lemma Scan_returns: "\<exists>r. Scan s = Some r"
proof (cases "sourcePos s \<ge> sourceSize s")
  case True
  then show ?thesis by (simp add: Scan_def)
next
  case False
  obtain r where "scan s (newScanContext (drop (sourcePos s) (source s))) = Some r"
    using scan_returns[of "newScanContext (drop (sourcePos s) (source s))" s]
    by (auto simp: newScanContext_def)
  with False show ?thesis by (auto simp: Scan_def split: prod.splits)
qed

lemma Scan_advances:
  assumes "Scan s = Some (Tokens tks s')" and "sourceSize s = length (source s)"
  shows "sourceSize s' = sourceSize s \<and> source s' = source s
         \<and> sourcePos s < sourcePos s' \<and> sourcePos s < sourceSize s"
proof -
  from assms(1) have lt: "sourcePos s < sourceSize s"
    by (auto simp: Scan_def split: if_splits)
  let ?c = "newScanContext (drop (sourcePos s) (source s))"
  from assms(1) lt obtain q s1 c1 where
    sc: "scan s ?c = Some (q, s1, c1)" and s': "s' = s1\<lparr>sourcePos := sourcePos s1 + q\<rparr>"
    by (auto simp: Scan_def split: option.splits prod.splits)
  have nx: "ctx_next ?c"
    using lt assms(2) by (simp add: ctx_next_def newScanContext_def)
  from sc have "1 \<le> q" unfolding scan_def by (rule scan_loop_pos) (simp add: nx)
  moreover from sc have "same_source s s1" unfolding scan_def by (rule scan_loop_keeps)
  ultimately show ?thesis using s' lt by (simp add: same_source_def)
qed

lemma tokenize_loop_returns:
  "sourceSize s = length (source s) \<Longrightarrow> sourceSize s - sourcePos s < n
     \<Longrightarrow> \<exists>r. tokenize_loop n s acc = Some r"
proof (induction n arbitrary: s acc)
  case 0
  then show ?case by simp
next
  case (Suc n)
  from Scan_returns[of s] obtain r where r: "Scan s = Some r" by blast
  show ?case
  proof (cases r)
    case EOF
    with r show ?thesis by simp
  next
    case (Tokens tks s1)
    with r Scan_advances[of s tks s1] Suc.prems
    have "sourceSize s1 = length (source s1)" "sourceSize s1 - sourcePos s1 < n"
      by auto
    from Suc.IH[OF this] r Tokens show ?thesis by simp
  qed
qed

lemma Tokenize_returns: "\<exists>tks. Tokenize text = Some tks"
proof -
  have "\<exists>r. tokenize_loop (Suc (length text)) (Init zeroScanner text) [] = Some r"
    by (rule tokenize_loop_returns) (simp_all add: Init_def)
  then show ?thesis by (auto simp: Tokenize_def)
qed

end
